theory Spec2Isabelle
  imports Complex_Main "HOL-Library.Product_Lexorder"
begin

section \<open>Pagination helpers (utils/helpers)\<close>

text \<open>
  JavaScript numbers that hold counts, page numbers and limits are modelled as \<open>int\<close>.
  \<open>parseInt\<close> of a query parameter is modelled by its result: \<open>None\<close> is \<open>NaN\<close>
  (parameter absent or not a number), \<open>Some n\<close> the parsed integer. The expression
  \<open>parseInt(x) || d\<close> takes the default for \<open>NaN\<close> and for \<open>0\<close>, the two falsy numbers.
\<close>

datatype sort_order = Asc | Desc

record pagination_options =
  po_page :: int
  po_limit :: int
  po_sortBy :: string
  po_sortOrder :: sort_order

record pagination_result =
  pg_page :: int
  pg_limit :: int
  pg_total :: int
  pg_pages :: int
  pg_hasNext :: bool
  pg_hasPrev :: bool

definition or_default :: "int option \<Rightarrow> int \<Rightarrow> int" where
  "or_default p d = (case p of None \<Rightarrow> d | Some n \<Rightarrow> if n = 0 then d else n)"

text \<open>
  A string parameter that may be absent is a \<open>string option\<close>. JavaScript treats both
  \<open>undefined\<close> and the empty string as falsy.
\<close>

definition truthy :: "string option \<Rightarrow> bool" where
  "truthy s = (case s of None \<Rightarrow> False | Some v \<Rightarrow> v \<noteq> [])"

definition getPaginationOptions ::
  "int option \<Rightarrow> int option \<Rightarrow> string option \<Rightarrow> string option \<Rightarrow> pagination_options" where
  "getPaginationOptions qpage qlimit qsortBy qsortOrder =
     \<lparr> po_page = max 1 (or_default qpage 1),
       po_limit = min 100 (max 1 (or_default qlimit 10)),
       po_sortBy = (case qsortBy of None \<Rightarrow> ''createdAt''
                    | Some f \<Rightarrow> if f = [] then ''createdAt'' else f),
       po_sortOrder = (if qsortOrder = Some ''asc'' then Asc else Desc) \<rparr>"

text \<open>
  \<open>Math.ceil(total / limit)\<close>: the division is the real quotient, then rounded up.
  For \<open>limit = 0\<close> JavaScript yields \<open>Infinity\<close> or \<open>NaN\<close>, which \<open>int\<close> cannot hold;
  every controller passes the limit of \<open>getPaginationOptions\<close>, which lies in 1..100.
\<close>

definition calculatePagination :: "int \<Rightarrow> int \<Rightarrow> int \<Rightarrow> pagination_result" where
  "calculatePagination tot page limit =
     (let pages = \<lceil>real_of_int tot / real_of_int limit\<rceil>;
          hasNext = (page < pages);
          hasPrev = (page > 1)
      in \<lparr> pg_page = page, pg_limit = limit, pg_total = tot, pg_pages = pages,
           pg_hasNext = hasNext, pg_hasPrev = hasPrev \<rparr>)"

definition getSkipValue :: "int \<Rightarrow> int \<Rightarrow> int" where
  "getSkipValue page limit = (page - 1) * limit"

text \<open>
  The window of a sorted result that \<open>.skip(getSkipValue(page, limit)).limit(limit)\<close>
  keeps.
\<close>

definition page_slice :: "int \<Rightarrow> int \<Rightarrow> 'a list \<Rightarrow> 'a list" where
  "page_slice page limit xs = take (nat limit) (drop (nat (getSkipValue page limit)) xs)"

section \<open>Errors\<close>

text \<open>
  The error classes of the error-handling middleware that the controllers throw, each
  with its message, and the two errors of the store library: the validation error that
  a rejected \<open>save\<close> raises, with the paths whose validators failed, and the cast error
  that a query raises when a value cannot be cast to the type of its path, with the path
  and the value (the error handler answers both with status 400, as it answers a
  \<open>BadRequestError\<close>). A thrown error is the \<open>Inl\<close> branch of a result.
\<close>

datatype error =
    BadRequestError string
  | UnauthorizedError string
  | NotFoundError string
  | ValidationError "string list"
  | CastError string string

section \<open>Dates\<close>

text \<open>
  A \<open>Date\<close> is its time value: milliseconds since the epoch, UTC. The calendar of the
  runtime is the proleptic Gregorian one; \<open>daysFromCivil\<close> and \<open>civilFromDays\<close> convert
  between a day number and (year, month, day). The process time zone is a fixed offset
  \<open>off\<close> in milliseconds, local time being UTC plus \<open>off\<close>.

  A date string that passed the ISO 8601 check is given by its form, because
  \<open>new Date(string)\<close> reads a date-only string as UTC midnight, and a date-time string
  without offset as local time.
\<close>

definition msPerDay :: int where
  "msPerDay = 86400000"

definition daysFromCivil :: "int \<Rightarrow> int \<Rightarrow> int \<Rightarrow> int" where
  "daysFromCivil y m d =
     (let y' = (if m \<le> 2 then y - 1 else y);
          era = y' div 400;
          yoe = y' - era * 400;
          mp = (m + 9) mod 12;
          doy = (153 * mp + 2) div 5 + d - 1;
          doe = yoe * 365 + yoe div 4 - yoe div 100 + doy
      in era * 146097 + doe - 719468)"

definition civilFromDays :: "int \<Rightarrow> int \<times> int \<times> int" where
  "civilFromDays z =
     (let z' = z + 719468;
          era = z' div 146097;
          doe = z' - era * 146097;
          yoe = (doe - doe div 1460 + doe div 36524 - doe div 146096) div 365;
          doy = doe - (365 * yoe + yoe div 4 - yoe div 100);
          mp = (5 * doy + 2) div 153;
          d = doy - (153 * mp + 2) div 5 + 1;
          m = (mp + 2) mod 12 + 1;
          y = yoe + era * 400
      in (if m \<le> 2 then y + 1 else y, m, d))"

datatype iso_date =
    DateOnly int int int
  | DateTime int int int int int int int
  | Instant int

definition timeOfDay :: "int \<Rightarrow> int \<Rightarrow> int \<Rightarrow> int \<Rightarrow> int" where
  "timeOfDay h mi s ms = h * 3600000 + mi * 60000 + s * 1000 + ms"

fun newDate :: "int \<Rightarrow> iso_date \<Rightarrow> int" where
  "newDate off (DateOnly y m d) = daysFromCivil y m d * msPerDay"
| "newDate off (DateTime y m d h mi s ms) =
     daysFromCivil y m d * msPerDay + timeOfDay h mi s ms - off"
| "newDate off (Instant t) = t"

declare newDate.simps [simp del]

text \<open>\<open>date.setHours(h, mi, s, ms)\<close> keeps the local calendar day and replaces the local time of day.\<close>

definition setHours :: "int \<Rightarrow> int \<Rightarrow> int \<Rightarrow> int \<Rightarrow> int \<Rightarrow> int \<Rightarrow> int" where
  "setHours off t h mi s ms = ((t + off) div msPerDay) * msPerDay + timeOfDay h mi s ms - off"

text \<open>The aggregation operators \<open>$year\<close> and \<open>$month\<close> read a date in UTC.\<close>

definition utcYear :: "int \<Rightarrow> int" where
  "utcYear t = fst (civilFromDays (t div msPerDay))"

definition utcMonth :: "int \<Rightarrow> int" where
  "utcMonth t = fst (snd (civilFromDays (t div msPerDay)))"

record date_range =
  dr_startDate :: "int option"
  dr_endDate :: "int option"

definition getDateRange :: "int \<Rightarrow> iso_date option \<Rightarrow> iso_date option \<Rightarrow> date_range" where
  "getDateRange off qstart qend =
     \<lparr> dr_startDate = (case qstart of None \<Rightarrow> None | Some d \<Rightarrow> Some (newDate off d)),
       dr_endDate = (case qend of None \<Rightarrow> None
                     | Some d \<Rightarrow> Some (setHours off (newDate off d) 23 59 59 999)) \<rparr>"

section \<open>Records of the store\<close>

text \<open>
  The four collections, each document with the fields of its schema that the controllers
  read or write (the timestamps that the store maintains by itself are left out). Amounts
  are JavaScript numbers; they are modelled as exact reals.
\<close>

record project =
  p_id :: string
  p_userId :: string
  p_name :: string
  p_clientName :: string
  p_expectedPayment :: real
  p_status :: string
  p_isActive :: bool

record entry =
  e_id :: string
  e_userId :: string
  e_projectId :: string
  e_amount :: real
  e_description :: string
  e_date :: int
  e_category :: string
  e_receiptUrl :: "string option"
  e_isActive :: bool

record savings_goal =
  g_id :: string
  g_userId :: string
  g_title :: string
  g_targetAmount :: real
  g_currentAmount :: real
  g_deadline :: int
  g_description :: "string option"
  g_category :: string
  g_priority :: string
  g_isActive :: bool
  g_isCompleted :: bool
  g_type :: string

record store =
  projects :: "project list"
  incomes :: "entry list"
  expenses :: "entry list"
  goals :: "savings_goal list"

section \<open>Query descriptors\<close>

text \<open>
  A query descriptor is the filter object handed to \<open>find\<close>, \<open>findOne\<close>,
  \<open>countDocuments\<close> or \<open>$match\<close>. Each key that the controllers ever set is a field;
  \<open>None\<close> means that the key is absent, so that it constrains nothing. A document matches
  when it satisfies every key that is present.
\<close>

record date_cond =
  dc_gte :: "int option"
  dc_lte :: "int option"

record query =
  q_id :: "string option"
  q_userId :: "string option"
  q_isActive :: "bool option"
  q_projectId :: "string option"
  q_category :: "string option"
  q_status :: "string option"
  q_priority :: "string option"
  q_isCompleted :: "bool option"
  q_date :: "date_cond option"
  q_deadline :: "date_cond option"

definition emptyQuery :: query where
  "emptyQuery = \<lparr> q_id = None, q_userId = None, q_isActive = None, q_projectId = None,
     q_category = None, q_status = None, q_priority = None, q_isCompleted = None,
     q_date = None, q_deadline = None \<rparr>"

definition opt_eq :: "'a option \<Rightarrow> 'a \<Rightarrow> bool" where
  "opt_eq c v = (case c of None \<Rightarrow> True | Some w \<Rightarrow> v = w)"

definition opt_range :: "date_cond option \<Rightarrow> int \<Rightarrow> bool" where
  "opt_range c t =
     (case c of None \<Rightarrow> True
      | Some r \<Rightarrow> (case dc_gte r of None \<Rightarrow> True | Some a \<Rightarrow> a \<le> t)
                \<and> (case dc_lte r of None \<Rightarrow> True | Some b \<Rightarrow> t \<le> b))"

definition matchesProject :: "query \<Rightarrow> project \<Rightarrow> bool" where
  "matchesProject q p =
     (opt_eq (q_id q) (p_id p) \<and> opt_eq (q_userId q) (p_userId p)
      \<and> opt_eq (q_isActive q) (p_isActive p) \<and> opt_eq (q_status q) (p_status p))"

definition matchesEntry :: "query \<Rightarrow> entry \<Rightarrow> bool" where
  "matchesEntry q e =
     (opt_eq (q_id q) (e_id e) \<and> opt_eq (q_userId q) (e_userId e)
      \<and> opt_eq (q_isActive q) (e_isActive e) \<and> opt_eq (q_projectId q) (e_projectId e)
      \<and> opt_eq (q_category q) (e_category e) \<and> opt_range (q_date q) (e_date e))"

definition matchesGoal :: "query \<Rightarrow> savings_goal \<Rightarrow> bool" where
  "matchesGoal q g =
     (opt_eq (q_id q) (g_id g) \<and> opt_eq (q_userId q) (g_userId g)
      \<and> opt_eq (q_isActive q) (g_isActive g) \<and> opt_eq (q_isCompleted q) (g_isCompleted g)
      \<and> opt_eq (q_category q) (g_category g) \<and> opt_eq (q_priority q) (g_priority g)
      \<and> opt_range (q_deadline q) (g_deadline g))"

text \<open>\<open>findOne\<close> returns the first matching document, or nothing.\<close>

definition findOne :: "('a \<Rightarrow> bool) \<Rightarrow> 'a list \<Rightarrow> 'a option" where
  "findOne m xs = (case filter m xs of [] \<Rightarrow> None | x # _ \<Rightarrow> Some x)"

section \<open>Requests\<close>

text \<open>
  What a list or statistics controller reads of a request: the caller identity that
  authentication attached (\<open>req.user?.userId\<close>), the query-string parameters, and the
  \<open>status\<close> path parameter of the projects-by-status route.
\<close>

record request =
  rq_userId :: "string option"
  rq_page :: "int option"
  rq_limit :: "int option"
  rq_sortBy :: "string option"
  rq_sortOrder :: "string option"
  rq_projectId :: "string option"
  rq_category :: "string option"
  rq_status :: "string option"
  rq_priority :: "string option"
  rq_startDate :: "iso_date option"
  rq_endDate :: "iso_date option"
  rq_days :: "int option"
  rq_paramStatus :: string

definition authenticated :: "request \<Rightarrow> error + string" where
  "authenticated rq =
     (case rq_userId rq of
        None \<Rightarrow> Inl (UnauthorizedError ''User not authenticated'')
      | Some userId \<Rightarrow>
          if userId = [] then Inl (UnauthorizedError ''User not authenticated'')
          else Inr userId)"

section \<open>Query construction in the controllers\<close>

definition incomeCategories :: "string list" where
  "incomeCategories = [''project-payment'', ''bonus'', ''other'']"

definition expenseCategories :: "string list" where
  "expenseCategories = [''software'', ''subscriptions'', ''equipment'', ''marketing'', ''other'']"

definition projectStatuses :: "string list" where
  "projectStatuses = [''active'', ''completed'', ''on-hold'']"

definition priorities :: "string list" where
  "priorities = [''low'', ''medium'', ''high'']"

text \<open>The object literal \<open>{ userId, isActive: true }\<close> that every query starts from.\<close>

definition baseQuery :: "string \<Rightarrow> query" where
  "baseQuery userId = emptyQuery\<lparr> q_userId := Some userId, q_isActive := Some True \<rparr>"

text \<open>
  \<open>if (startDate || endDate) { query.date = {}; ... }\<close>: a \<open>Date\<close> object is always
  truthy, so each bound that \<open>getDateRange\<close> produced is set.
\<close>

definition withDateRange :: "date_range \<Rightarrow> query \<Rightarrow> query" where
  "withDateRange r q =
     (if dr_startDate r \<noteq> None \<or> dr_endDate r \<noteq> None
      then q\<lparr> q_date := Some \<lparr> dc_gte = dr_startDate r, dc_lte = dr_endDate r \<rparr> \<rparr>
      else q)"

definition withProjectId :: "string option \<Rightarrow> query \<Rightarrow> query" where
  "withProjectId projectId q = (if truthy projectId then q\<lparr> q_projectId := projectId \<rparr> else q)"

text \<open>A parameter that is applied only when it is one of the listed values.\<close>

definition recognized :: "string list \<Rightarrow> string option \<Rightarrow> bool" where
  "recognized allowed v = (case v of None \<Rightarrow> False | Some c \<Rightarrow> c \<noteq> [] \<and> c \<in> set allowed)"

definition getIncomeEntriesQuery :: "int \<Rightarrow> string \<Rightarrow> request \<Rightarrow> query" where
  "getIncomeEntriesQuery off userId rq =
     (let query = baseQuery userId;
          query = withProjectId (rq_projectId rq) query;
          query = (if recognized incomeCategories (rq_category rq)
                   then query\<lparr> q_category := rq_category rq \<rparr> else query)
      in withDateRange (getDateRange off (rq_startDate rq) (rq_endDate rq)) query)"

definition getExpenseEntriesQuery :: "int \<Rightarrow> string \<Rightarrow> request \<Rightarrow> query" where
  "getExpenseEntriesQuery off userId rq =
     (let query = baseQuery userId;
          query = withProjectId (rq_projectId rq) query;
          query = (if recognized expenseCategories (rq_category rq)
                   then query\<lparr> q_category := rq_category rq \<rparr> else query)
      in withDateRange (getDateRange off (rq_startDate rq) (rq_endDate rq)) query)"

definition getProjectsQuery :: "string \<Rightarrow> request \<Rightarrow> query" where
  "getProjectsQuery userId rq =
     (let query = baseQuery userId
      in if recognized projectStatuses (rq_status rq)
         then query\<lparr> q_status := rq_status rq \<rparr> else query)"

definition getProjectsByStatusQuery :: "string \<Rightarrow> string \<Rightarrow> query" where
  "getProjectsByStatusQuery userId status =
     emptyQuery\<lparr> q_userId := Some userId, q_status := Some status, q_isActive := Some True \<rparr>"

definition getSavingsGoalsQuery :: "string \<Rightarrow> request \<Rightarrow> query" where
  "getSavingsGoalsQuery userId rq =
     (let query = baseQuery userId;
          query = (if truthy (rq_status rq)
                   then (if rq_status rq = Some ''active'' then query\<lparr> q_isCompleted := Some False \<rparr>
                         else if rq_status rq = Some ''completed''
                              then query\<lparr> q_isCompleted := Some True \<rparr>
                              else query)
                   else query);
          query = (if truthy (rq_category rq) then query\<lparr> q_category := rq_category rq \<rparr>
                   else query)
      in if recognized priorities (rq_priority rq)
         then query\<lparr> q_priority := rq_priority rq \<rparr> else query)"

text \<open>
  The \<open>matchQuery\<close> of the four statistics controllers over entries
  (\<open>getIncomeStats\<close>, \<open>getIncomeByProject\<close>, \<open>getExpenseStats\<close>,
  \<open>getExpensesByProject\<close>), which build it with the same statements.
\<close>

definition matchQuery :: "int \<Rightarrow> string \<Rightarrow> request \<Rightarrow> query" where
  "matchQuery off userId rq =
     withDateRange (getDateRange off (rq_startDate rq) (rq_endDate rq)) (baseQuery userId)"

text \<open>The static finders of the savings-goal model.\<close>

definition findActiveByUserQuery :: "string \<Rightarrow> query" where
  "findActiveByUserQuery userId =
     emptyQuery\<lparr> q_userId := Some userId, q_isActive := Some True, q_isCompleted := Some False \<rparr>"

definition findCompletedByUserQuery :: "string \<Rightarrow> query" where
  "findCompletedByUserQuery userId =
     emptyQuery\<lparr> q_userId := Some userId, q_isActive := Some True, q_isCompleted := Some True \<rparr>"

definition findExpiringSoonQuery :: "int \<Rightarrow> string \<Rightarrow> int \<Rightarrow> query" where
  "findExpiringSoonQuery now userId days =
     (let futureDate = now + days * msPerDay
      in emptyQuery\<lparr> q_userId := Some userId, q_isActive := Some True,
           q_isCompleted := Some False,
           q_deadline := Some \<lparr> dc_gte = None, dc_lte = Some futureDate \<rparr> \<rparr>)"

text \<open>The lookup \<open>{ _id, userId, isActive: true }\<close> of one document by id.\<close>

definition byIdQuery :: "string \<Rightarrow> string \<Rightarrow> query" where
  "byIdQuery ident userId =
     emptyQuery\<lparr> q_id := Some ident, q_userId := Some userId, q_isActive := Some True \<rparr>"

text \<open>
  The list and statistics operations, and for each one the query descriptors that it
  sends to the store when it gets that far (the per-record project lookups of the entry
  lists are \<open>byIdQuery\<close>).
\<close>

datatype operation =
    GetIncomeEntries | GetExpenseEntries | GetProjects | GetProjectsByStatus
  | GetSavingsGoals | GetActiveSavingsGoals | GetCompletedSavingsGoals
  | GetExpiringSoonSavingsGoals
  | GetIncomeStats | GetIncomeByProject | GetExpenseStats | GetExpensesByProject
  | GetProjectStats | GetSavingsGoalsStats

fun queriesOf :: "int \<Rightarrow> int \<Rightarrow> operation \<Rightarrow> string \<Rightarrow> request \<Rightarrow> error + query list" where
  "queriesOf off now GetIncomeEntries userId rq = Inr [getIncomeEntriesQuery off userId rq]"
| "queriesOf off now GetExpenseEntries userId rq = Inr [getExpenseEntriesQuery off userId rq]"
| "queriesOf off now GetProjects userId rq = Inr [getProjectsQuery userId rq]"
| "queriesOf off now GetProjectsByStatus userId rq =
     (if rq_paramStatus rq \<notin> set projectStatuses
      then Inl (BadRequestError ''Invalid status value'')
      else Inr [getProjectsByStatusQuery userId (rq_paramStatus rq)])"
| "queriesOf off now GetSavingsGoals userId rq = Inr [getSavingsGoalsQuery userId rq]"
| "queriesOf off now GetActiveSavingsGoals userId rq = Inr [findActiveByUserQuery userId]"
| "queriesOf off now GetCompletedSavingsGoals userId rq = Inr [findCompletedByUserQuery userId]"
| "queriesOf off now GetExpiringSoonSavingsGoals userId rq =
     (let days = or_default (rq_days rq) 7
      in if days < 1 \<or> days > 365
         then Inl (BadRequestError ''Days must be between 1 and 365'')
         else Inr [findExpiringSoonQuery now userId days])"
| "queriesOf off now GetIncomeStats userId rq = Inr [matchQuery off userId rq]"
| "queriesOf off now GetIncomeByProject userId rq = Inr [matchQuery off userId rq]"
| "queriesOf off now GetExpenseStats userId rq = Inr [matchQuery off userId rq]"
| "queriesOf off now GetExpensesByProject userId rq = Inr [matchQuery off userId rq]"
| "queriesOf off now GetProjectStats userId rq = Inr [baseQuery userId]"
| "queriesOf off now GetSavingsGoalsStats userId rq =
     Inr [baseQuery userId, findActiveByUserQuery userId, findCompletedByUserQuery userId,
          findExpiringSoonQuery now userId 7, baseQuery userId]"

definition storeQueries :: "int \<Rightarrow> int \<Rightarrow> operation \<Rightarrow> request \<Rightarrow> error + query list" where
  "storeQueries off now opn rq =
     (case authenticated rq of Inl e \<Rightarrow> Inl e | Inr userId \<Rightarrow> queriesOf off now opn userId rq)"

section \<open>List controllers\<close>

text \<open>
  \<open>find(query).sort(...).skip(...).limit(...)\<close> filters the collection, orders it and
  keeps one window. How the store orders documents by a field name is not part of this
  code: it is the parameter \<open>srt\<close>. \<open>countDocuments(query)\<close> counts the matching
  documents.
\<close>

definition populate :: "project list \<Rightarrow> string \<Rightarrow> entry \<Rightarrow> entry \<times> (string \<times> string) option" where
  "populate ps userId e =
     (e, case findOne (matchesProject (byIdQuery (e_projectId e) userId)) ps of
           None \<Rightarrow> None
         | Some project \<Rightarrow> Some (p_name project, p_clientName project))"

definition getIncomeEntries ::
  "(string \<Rightarrow> sort_order \<Rightarrow> entry list \<Rightarrow> entry list) \<Rightarrow> int \<Rightarrow> store \<Rightarrow> request
   \<Rightarrow> error + ((entry \<times> (string \<times> string) option) list \<times> pagination_result)" where
  "getIncomeEntries srt off st rq =
     (case authenticated rq of
        Inl e \<Rightarrow> Inl e
      | Inr userId \<Rightarrow>
          let opts = getPaginationOptions (rq_page rq) (rq_limit rq) (rq_sortBy rq) (rq_sortOrder rq);
              query = getIncomeEntriesQuery off userId rq;
              tot = int (length (filter (matchesEntry query) (incomes st)));
              incomeEntries = page_slice (po_page opts) (po_limit opts)
                 (srt (po_sortBy opts) (po_sortOrder opts) (filter (matchesEntry query) (incomes st)));
              populatedEntries = map (populate (projects st) userId) incomeEntries
          in Inr (populatedEntries, calculatePagination tot (po_page opts) (po_limit opts)))"

definition getExpenseEntries ::
  "(string \<Rightarrow> sort_order \<Rightarrow> entry list \<Rightarrow> entry list) \<Rightarrow> int \<Rightarrow> store \<Rightarrow> request
   \<Rightarrow> error + ((entry \<times> (string \<times> string) option) list \<times> pagination_result)" where
  "getExpenseEntries srt off st rq =
     (case authenticated rq of
        Inl e \<Rightarrow> Inl e
      | Inr userId \<Rightarrow>
          let opts = getPaginationOptions (rq_page rq) (rq_limit rq) (rq_sortBy rq) (rq_sortOrder rq);
              query = getExpenseEntriesQuery off userId rq;
              tot = int (length (filter (matchesEntry query) (expenses st)));
              expenseEntries = page_slice (po_page opts) (po_limit opts)
                 (srt (po_sortBy opts) (po_sortOrder opts) (filter (matchesEntry query) (expenses st)));
              populatedEntries = map (populate (projects st) userId) expenseEntries
          in Inr (populatedEntries, calculatePagination tot (po_page opts) (po_limit opts)))"

definition getProjects ::
  "(string \<Rightarrow> sort_order \<Rightarrow> project list \<Rightarrow> project list) \<Rightarrow> store \<Rightarrow> request
   \<Rightarrow> error + (project list \<times> pagination_result)" where
  "getProjects srt st rq =
     (case authenticated rq of
        Inl e \<Rightarrow> Inl e
      | Inr userId \<Rightarrow>
          let opts = getPaginationOptions (rq_page rq) (rq_limit rq) (rq_sortBy rq) (rq_sortOrder rq);
              query = getProjectsQuery userId rq;
              tot = int (length (filter (matchesProject query) (projects st)));
              ps = page_slice (po_page opts) (po_limit opts)
                 (srt (po_sortBy opts) (po_sortOrder opts) (filter (matchesProject query) (projects st)))
          in Inr (ps, calculatePagination tot (po_page opts) (po_limit opts)))"

text \<open>
  \<open>getProjectsByStatus\<close> takes the status from the path and rejects one that is not a
  project status.
\<close>

definition getProjectsByStatus ::
  "(string \<Rightarrow> sort_order \<Rightarrow> project list \<Rightarrow> project list) \<Rightarrow> store \<Rightarrow> request
   \<Rightarrow> error + (project list \<times> pagination_result)" where
  "getProjectsByStatus srt st rq =
     (case authenticated rq of
        Inl e \<Rightarrow> Inl e
      | Inr userId \<Rightarrow>
          if rq_paramStatus rq \<notin> set projectStatuses
          then Inl (BadRequestError ''Invalid status value'')
          else
            let opts = getPaginationOptions (rq_page rq) (rq_limit rq) (rq_sortBy rq) (rq_sortOrder rq);
                query = getProjectsByStatusQuery userId (rq_paramStatus rq);
                tot = int (length (filter (matchesProject query) (projects st)));
                ps = page_slice (po_page opts) (po_limit opts)
                   (srt (po_sortBy opts) (po_sortOrder opts) (filter (matchesProject query) (projects st)))
            in Inr (ps, calculatePagination tot (po_page opts) (po_limit opts)))"

definition getSavingsGoals ::
  "(string \<Rightarrow> sort_order \<Rightarrow> savings_goal list \<Rightarrow> savings_goal list) \<Rightarrow> store \<Rightarrow> request
   \<Rightarrow> error + (savings_goal list \<times> pagination_result)" where
  "getSavingsGoals srt st rq =
     (case authenticated rq of
        Inl e \<Rightarrow> Inl e
      | Inr userId \<Rightarrow>
          let opts = getPaginationOptions (rq_page rq) (rq_limit rq) (rq_sortBy rq) (rq_sortOrder rq);
              query = getSavingsGoalsQuery userId rq;
              tot = int (length (filter (matchesGoal query) (goals st)));
              savingsGoals = page_slice (po_page opts) (po_limit opts)
                 (srt (po_sortBy opts) (po_sortOrder opts) (filter (matchesGoal query) (goals st)))
          in Inr (savingsGoals, calculatePagination tot (po_page opts) (po_limit opts)))"

section \<open>Aggregation\<close>

text \<open>
  The aggregation pipeline of the store: \<open>$match\<close> filters, \<open>$group\<close> makes one
  document per distinct key of the matching documents, with \<open>$sum\<close> adding up a field
  or counting, and \<open>$sort\<close> orders the groups. The store leaves the order of groups
  before \<open>$sort\<close>, and of groups with equal sort keys after it, open; the model fixes
  one such order.
\<close>

definition group_by :: "('a \<Rightarrow> 'k) \<Rightarrow> 'a list \<Rightarrow> ('k \<times> 'a list) list" where
  "group_by key xs = map (\<lambda>k. (k, filter (\<lambda>x. key x = k) xs)) (remdups (map key xs))"

definition sum_amount :: "entry list \<Rightarrow> real" where
  "sum_amount es = sum_list (map e_amount es)"

text \<open>Number to string, and \<open>padStart\<close>, as the month label uses them.\<close>

definition digitChar :: "nat \<Rightarrow> char" where
  "digitChar d = ''0123456789'' ! d"

function toStringNat :: "nat \<Rightarrow> string" where
  "toStringNat n = (if n < 10 then [digitChar n] else toStringNat (n div 10) @ [digitChar (n mod 10)])"
  by pat_completeness auto
termination
  by (relation "measure id") auto

declare toStringNat.simps [simp del]

definition toString :: "int \<Rightarrow> string" where
  "toString i = (if i < 0 then CHR ''-'' # toStringNat (nat (- i)) else toStringNat (nat i))"

definition padStart :: "nat \<Rightarrow> char \<Rightarrow> string \<Rightarrow> string" where
  "padStart n c v = replicate (n - length v) c @ v"

definition monthLabel :: "int \<Rightarrow> int \<Rightarrow> string" where
  "monthLabel y m = toString y @ ''-'' @ padStart 2 (CHR ''0'') (toString m)"

datatype kind = Income | Expense

fun entriesOf :: "kind \<Rightarrow> store \<Rightarrow> entry list" where
  "entriesOf Income st = incomes st"
| "entriesOf Expense st = expenses st"

fun categoriesOf :: "kind \<Rightarrow> string list" where
  "categoriesOf Income = incomeCategories"
| "categoriesOf Expense = expenseCategories"

fun defaultCategory :: "kind \<Rightarrow> string" where
  "defaultCategory Income = ''project-payment''"
| "defaultCategory Expense = ''other''"

record trend =
  t_month :: string
  t_amount :: real
  t_count :: nat

record entry_stats =
  s_total :: real
  s_count :: nat
  s_average :: real
  s_byCategory :: "(string \<times> real) list"
  s_monthlyTrend :: "trend list"

definition yearMonth :: "entry \<Rightarrow> int \<times> int" where
  "yearMonth e = (utcYear (e_date e), utcMonth (e_date e))"

text \<open>
  \<open>getIncomeStats\<close> and \<open>getExpenseStats\<close> are the same statements over the income
  and the expense collection; \<open>getEntryStats\<close> takes the collection as \<open>kind\<close>. The
  fields \<open>totalIncome\<close>/\<open>totalExpenses\<close>, \<open>totalEntries\<close>,
  \<open>averageIncome\<close>/\<open>averageExpense\<close> and \<open>incomeByCategory\<close>/\<open>expensesByCategory\<close>
  are \<open>s_total\<close>, \<open>s_count\<close>, \<open>s_average\<close> and \<open>s_byCategory\<close>.
\<close>

definition getEntryStats :: "kind \<Rightarrow> int \<Rightarrow> store \<Rightarrow> request \<Rightarrow> error + entry_stats" where
  "getEntryStats k off st rq =
     (case authenticated rq of
        Inl e \<Rightarrow> Inl e
      | Inr userId \<Rightarrow>
          let matched = filter (matchesEntry (matchQuery off userId rq)) (entriesOf k st);
              categoryStats = map (\<lambda>(c, es). (c, sum_amount es, length es))
                                  (group_by e_category matched);
              monthlyStats = sort_key fst
                 (map (\<lambda>(ym, es). (ym, sum_amount es, length es)) (group_by yearMonth matched))
          in Inr \<lparr> s_total = (if matched = [] then 0 else sum_amount matched),
                   s_count = (if matched = [] then 0 else length matched),
                   s_average = (if matched = [] then 0
                                else sum_amount matched / real (length matched)),
                   s_byCategory = map (\<lambda>(c, t, n). (c, t)) categoryStats,
                   s_monthlyTrend = map (\<lambda>((y, m), t, n).
                       \<lparr> t_month = monthLabel y m, t_amount = t, t_count = n \<rparr>) monthlyStats \<rparr>)"

definition getIncomeStats :: "int \<Rightarrow> store \<Rightarrow> request \<Rightarrow> error + entry_stats" where
  "getIncomeStats = getEntryStats Income"

definition getExpenseStats :: "int \<Rightarrow> store \<Rightarrow> request \<Rightarrow> error + entry_stats" where
  "getExpenseStats = getEntryStats Expense"

record project_row =
  r_projectId :: string
  r_projectName :: string
  r_clientName :: string
  r_total :: real
  r_entryCount :: nat

text \<open>\<open>value || fallback\<close> on an optional string: the fallback for \<open>undefined\<close> and for the empty string.\<close>

definition orElse :: "string option \<Rightarrow> string \<Rightarrow> string" where
  "orElse v d = (case v of None \<Rightarrow> d | Some w \<Rightarrow> if w = [] then d else w)"

text \<open>
  \<open>getIncomeByProject\<close> and \<open>getExpensesByProject\<close>, likewise one definition over
  \<open>kind\<close>; \<open>totalIncome\<close>/\<open>totalExpenses\<close> is \<open>r_total\<close>.
\<close>

definition getEntriesByProject :: "kind \<Rightarrow> int \<Rightarrow> store \<Rightarrow> request \<Rightarrow> error + project_row list" where
  "getEntriesByProject k off st rq =
     (case authenticated rq of
        Inl e \<Rightarrow> Inl e
      | Inr userId \<Rightarrow>
          let matched = filter (matchesEntry (matchQuery off userId rq)) (entriesOf k st);
              projectStats = sort_key (\<lambda>(pid, t, n). - t)
                 (map (\<lambda>(pid, es). (pid, sum_amount es, length es)) (group_by e_projectId matched))
          in Inr (map (\<lambda>(pid, t, n).
                let project = findOne (matchesProject (byIdQuery pid userId)) (projects st)
                in \<lparr> r_projectId = pid,
                     r_projectName = orElse (map_option p_name project) ''Unknown Project'',
                     r_clientName = orElse (map_option p_clientName project) ''Unknown Client'',
                     r_total = t, r_entryCount = n \<rparr>) projectStats))"


definition getExpensesByProject :: "int \<Rightarrow> store \<Rightarrow> request \<Rightarrow> error + project_row list" where
  "getExpensesByProject = getEntriesByProject Expense"

section \<open>Savings goals\<close>

text \<open>
  \<open>String.prototype.trim\<close> on the ASCII white-space characters.
\<close>

definition isSpace :: "char \<Rightarrow> bool" where
  "isSpace c = (c \<in> set [CHR '' '', CHR 0x09, CHR 0x0A, CHR 0x0B, CHR 0x0C, CHR 0x0D])"

definition trim :: "string \<Rightarrow> string" where
  "trim v = rev (dropWhile isSpace (rev (dropWhile isSpace v)))"

definition goalCategories :: "string list" where
  "goalCategories =
     [''emergency-fund'', ''vacation'', ''house'', ''car'', ''education'', ''retirement'', ''other'']"

definition goalTypes :: "string list" where
  "goalTypes = [''monthly'', ''yearly'']"

definition goalPaths :: "string list" where
  "goalPaths = [''title'', ''targetAmount'', ''currentAmount'', ''deadline'', ''description'',
                ''category'', ''priority'', ''type'']"

text \<open>
  The validators of the savings-goal schema. A \<open>save\<close> validates a set of paths before
  the pre-save hook runs: every path of a new document; for a document that was loaded
  and changed, the paths that the store library selects, which is the parameter
  \<open>vpaths\<close> of the operations below. \<open>goalInvalidPaths\<close> lists the validated paths
  whose value the schema rejects; the deadline validator compares with the current time
  \<open>now\<close>.
\<close>

definition goalInvalidPaths :: "int \<Rightarrow> string list \<Rightarrow> savings_goal \<Rightarrow> string list" where
  "goalInvalidPaths now vpaths g =
     filter (\<lambda>p. p \<in> set vpaths)
       ((if length (g_title g) < 2 \<or> 100 < length (g_title g) then [''title''] else [])
        @ (if g_targetAmount g < 1 then [''targetAmount''] else [])
        @ (if g_currentAmount g < 0 then [''currentAmount''] else [])
        @ (if g_deadline g > now then [] else [''deadline''])
        @ (case g_description g of None \<Rightarrow> []
           | Some d \<Rightarrow> if 500 < length d then [''description''] else [])
        @ (if g_category g \<in> set goalCategories then [] else [''category''])
        @ (if g_priority g \<in> set priorities then [] else [''priority''])
        @ (if g_type g \<in> set goalTypes then [] else [''type'']))"

text \<open>The pre-save middleware of the schema.\<close>

definition preSave :: "savings_goal \<Rightarrow> savings_goal" where
  "preSave g =
     (if g_currentAmount g \<ge> g_targetAmount g \<and> \<not> g_isCompleted g
      then g\<lparr> g_isCompleted := True \<rparr> else g)"

text \<open>
  \<open>document.save()\<close>: validation, then the pre-save hook; the result is the document
  that is written.
\<close>

definition save :: "int \<Rightarrow> string list \<Rightarrow> savings_goal \<Rightarrow> error + savings_goal" where
  "save now vpaths g =
     (if goalInvalidPaths now vpaths g = [] then Inr (preSave g)
      else Inl (ValidationError (goalInvalidPaths now vpaths g)))"

definition replaceGoal :: "savings_goal \<Rightarrow> savings_goal list \<Rightarrow> savings_goal list" where
  "replaceGoal g gs = map (\<lambda>x. if g_id x = g_id g then g else x) gs"

text \<open>
  Writing back a loaded document: on success the stored copy is replaced, on a validation
  error the store stays as it is.
\<close>

definition saveGoal :: "int \<Rightarrow> string list \<Rightarrow> store \<Rightarrow> savings_goal \<Rightarrow> (error + savings_goal) \<times> store" where
  "saveGoal now vpaths st g =
     (case save now vpaths g of
        Inl e \<Rightarrow> (Inl e, st)
      | Inr g' \<Rightarrow> (Inr g', st\<lparr> goals := replaceGoal g' (goals st) \<rparr>))"

text \<open>The instance methods of the model.\<close>

definition addProgress :: "int \<Rightarrow> string list \<Rightarrow> savings_goal \<Rightarrow> real \<Rightarrow> error + savings_goal" where
  "addProgress now vpaths g amount =
     save now vpaths (g\<lparr> g_currentAmount := g_currentAmount g + amount \<rparr>)"

definition subtractProgress :: "int \<Rightarrow> string list \<Rightarrow> savings_goal \<Rightarrow> real \<Rightarrow> error + savings_goal" where
  "subtractProgress now vpaths g amount =
     save now vpaths (g\<lparr> g_currentAmount := max 0 (g_currentAmount g - amount) \<rparr>)"

definition markCompleted :: "int \<Rightarrow> string list \<Rightarrow> savings_goal \<Rightarrow> error + savings_goal" where
  "markCompleted now vpaths g = save now vpaths (g\<lparr> g_isCompleted := True \<rparr>)"

definition markActive :: "int \<Rightarrow> string list \<Rightarrow> savings_goal \<Rightarrow> error + savings_goal" where
  "markActive now vpaths g = save now vpaths (g\<lparr> g_isCompleted := False \<rparr>)"

text \<open>
  The four instance methods as one call, so that a statement can range over them.
\<close>

datatype goal_method = AddProgress real | SubtractProgress real | MarkCompleted | MarkActive

fun callMethod :: "int \<Rightarrow> string list \<Rightarrow> savings_goal \<Rightarrow> goal_method \<Rightarrow> error + savings_goal" where
  "callMethod now vpaths g (AddProgress a) = addProgress now vpaths g a"
| "callMethod now vpaths g (SubtractProgress a) = subtractProgress now vpaths g a"
| "callMethod now vpaths g MarkCompleted = markCompleted now vpaths g"
| "callMethod now vpaths g MarkActive = markActive now vpaths g"

text \<open>
  The body of a create or update request for a savings goal. A number field is \<open>None\<close>
  when it is absent; \<open>!x\<close> on a number holds when it is absent or zero.
\<close>

record goal_body =
  gb_title :: "string option"
  gb_targetAmount :: "real option"
  gb_currentAmount :: "real option"
  gb_deadline :: "iso_date option"
  gb_description :: "string option"
  gb_category :: "string option"
  gb_priority :: "string option"

definition createSavingsGoal ::
  "int \<Rightarrow> int \<Rightarrow> string \<Rightarrow> store \<Rightarrow> request \<Rightarrow> goal_body \<Rightarrow> (error + savings_goal) \<times> store" where
  "createSavingsGoal off now newId st rq body =
     (case authenticated rq of
        Inl e \<Rightarrow> (Inl e, st)
      | Inr userId \<Rightarrow>
         (case (gb_title body, gb_targetAmount body, gb_deadline body) of
            (Some title, Some targetAmount, Some deadline) \<Rightarrow>
              if title = [] \<or> targetAmount = 0
              then (Inl (BadRequestError ''Title, target amount, and deadline are required''), st)
              else if targetAmount \<le> 0
              then (Inl (BadRequestError ''Target amount must be greater than 0''), st)
              else if (case gb_currentAmount body of None \<Rightarrow> False
                       | Some c \<Rightarrow> c \<noteq> 0 \<and> c < 0)
              then (Inl (BadRequestError ''Current amount cannot be negative''), st)
              else if newDate off deadline \<le> now
              then (Inl (BadRequestError ''Deadline must be in the future''), st)
              else
                let goalData =
                      \<lparr> g_id = newId, g_userId = userId, g_title = trim title,
                        g_targetAmount = targetAmount,
                        g_currentAmount = (case gb_currentAmount body of None \<Rightarrow> 0 | Some c \<Rightarrow> c),
                        g_deadline = newDate off deadline,
                        g_description = map_option trim (gb_description body),
                        g_category = (case gb_category body of None \<Rightarrow> ''other'' | Some c \<Rightarrow> c),
                        g_priority = orElse (gb_priority body) ''medium'',
                        g_isActive = True, g_isCompleted = False, g_type = ''monthly'' \<rparr>
                in (case save now goalPaths goalData of
                      Inl e \<Rightarrow> (Inl e, st)
                    | Inr savedSavingsGoal \<Rightarrow>
                        (Inr savedSavingsGoal, st\<lparr> goals := goals st @ [savedSavingsGoal] \<rparr>))
          | _ \<Rightarrow> (Inl (BadRequestError ''Title, target amount, and deadline are required''), st)))"

text \<open>
  \<open>updateSavingsGoal\<close> changes the fields that the body provides, checking each one in
  the order of the source, and saves.
\<close>

definition updateSavingsGoal ::
  "int \<Rightarrow> int \<Rightarrow> string list \<Rightarrow> store \<Rightarrow> request \<Rightarrow> string \<Rightarrow> goal_body
   \<Rightarrow> (error + savings_goal) \<times> store" where
  "updateSavingsGoal off now vpaths st rq ident body =
     (case authenticated rq of
        Inl e \<Rightarrow> (Inl e, st)
      | Inr userId \<Rightarrow>
         (case findOne (matchesGoal (byIdQuery ident userId)) (goals st) of
            None \<Rightarrow> (Inl (NotFoundError ''Savings goal not found''), st)
          | Some savingsGoal \<Rightarrow>
              if (case gb_title body of None \<Rightarrow> False | Some t \<Rightarrow> trim t = [])
              then (Inl (BadRequestError ''Title cannot be empty''), st)
              else if (case gb_targetAmount body of None \<Rightarrow> False | Some t \<Rightarrow> t \<le> 0)
              then (Inl (BadRequestError ''Target amount must be greater than 0''), st)
              else if (case gb_currentAmount body of None \<Rightarrow> False | Some c \<Rightarrow> c < 0)
              then (Inl (BadRequestError ''Current amount cannot be negative''), st)
              else if (case gb_deadline body of None \<Rightarrow> False | Some d \<Rightarrow> newDate off d \<le> now)
              then (Inl (BadRequestError ''Deadline must be in the future''), st)
              else if (case gb_priority body of None \<Rightarrow> False | Some p \<Rightarrow> p \<notin> set priorities)
              then (Inl (BadRequestError ''Priority must be low, medium, or high''), st)
              else
                saveGoal now vpaths st
                  (savingsGoal
                    \<lparr> g_title := (case gb_title body of None \<Rightarrow> g_title savingsGoal
                                   | Some t \<Rightarrow> trim t),
                      g_targetAmount := (case gb_targetAmount body of
                                           None \<Rightarrow> g_targetAmount savingsGoal | Some t \<Rightarrow> t),
                      g_currentAmount := (case gb_currentAmount body of
                                            None \<Rightarrow> g_currentAmount savingsGoal | Some c \<Rightarrow> c),
                      g_deadline := (case gb_deadline body of
                                       None \<Rightarrow> g_deadline savingsGoal | Some d \<Rightarrow> newDate off d),
                      g_description := (case gb_description body of
                                          None \<Rightarrow> g_description savingsGoal
                                        | Some d \<Rightarrow> Some (trim d)),
                      g_category := (case gb_category body of
                                       None \<Rightarrow> g_category savingsGoal | Some c \<Rightarrow> c),
                      g_priority := (case gb_priority body of
                                       None \<Rightarrow> g_priority savingsGoal | Some p \<Rightarrow> p) \<rparr>)))"

text \<open>
  \<open>updateSavingsGoalProgress\<close>: \<open>amount\<close> and \<open>action\<close> come from the body. The
  amount check precedes the action check and the lookup, as in the source.
\<close>

definition updateSavingsGoalProgress ::
  "int \<Rightarrow> string list \<Rightarrow> store \<Rightarrow> request \<Rightarrow> string \<Rightarrow> real option \<Rightarrow> string option
   \<Rightarrow> (error + savings_goal) \<times> store" where
  "updateSavingsGoalProgress now vpaths st rq ident amount action =
     (case authenticated rq of
        Inl e \<Rightarrow> (Inl e, st)
      | Inr userId \<Rightarrow>
         (case amount of
            None \<Rightarrow> (Inl (BadRequestError ''Amount must be greater than 0''), st)
          | Some amt \<Rightarrow>
              if amt = 0 \<or> amt \<le> 0
              then (Inl (BadRequestError ''Amount must be greater than 0''), st)
              else if \<not> recognized [''add'', ''subtract''] action
              then (Inl (BadRequestError ''Action must be either \"add\" or \"subtract\"''), st)
              else
                (case findOne (matchesGoal (byIdQuery ident userId)) (goals st) of
                   None \<Rightarrow> (Inl (NotFoundError ''Savings goal not found''), st)
                 | Some savingsGoal \<Rightarrow>
                     if action = Some ''add''
                     then saveGoal now vpaths st
                            (savingsGoal\<lparr> g_currentAmount := g_currentAmount savingsGoal + amt \<rparr>)
                     else
                       let newAmount = g_currentAmount savingsGoal - amt
                       in if newAmount < 0
                          then (Inl (BadRequestError ''Cannot subtract more than current amount''), st)
                          else saveGoal now vpaths st
                                 (savingsGoal\<lparr> g_currentAmount := newAmount \<rparr>))))"

definition deleteSavingsGoal ::
  "int \<Rightarrow> string list \<Rightarrow> store \<Rightarrow> request \<Rightarrow> string \<Rightarrow> (error + savings_goal) \<times> store" where
  "deleteSavingsGoal now vpaths st rq ident =
     (case authenticated rq of
        Inl e \<Rightarrow> (Inl e, st)
      | Inr userId \<Rightarrow>
         (case findOne (matchesGoal (byIdQuery ident userId)) (goals st) of
            None \<Rightarrow> (Inl (NotFoundError ''Savings goal not found''), st)
          | Some savingsGoal \<Rightarrow> saveGoal now vpaths st (savingsGoal\<lparr> g_isActive := False \<rparr>)))"

section \<open>Creating and updating entries\<close>

text \<open>
  The income and the expense controller are the same statements over their own model,
  category list and default category; the expense entry also takes a receipt URL. The
  definitions take the \<open>kind\<close>; \<open>createIncomeEntry\<close>, \<open>createExpenseEntry\<close>,
  \<open>updateIncomeEntry\<close> and \<open>updateExpenseEntry\<close> are their instances.
\<close>

record entry_body =
  eb_projectId :: "string option"
  eb_amount :: "real option"
  eb_description :: "string option"
  eb_date :: "iso_date option"
  eb_category :: "string option"
  eb_receiptUrl :: "string option"

fun setEntries :: "kind \<Rightarrow> entry list \<Rightarrow> store \<Rightarrow> store" where
  "setEntries Income es st = st\<lparr> incomes := es \<rparr>"
| "setEntries Expense es st = st\<lparr> expenses := es \<rparr>"

fun entryNotFound :: "kind \<Rightarrow> string" where
  "entryNotFound Income = ''Income entry not found''"
| "entryNotFound Expense = ''Expense entry not found''"

definition entryPaths :: "string list" where
  "entryPaths = [''projectId'', ''amount'', ''description'', ''category'']"

definition entryInvalidPaths :: "kind \<Rightarrow> string list \<Rightarrow> entry \<Rightarrow> string list" where
  "entryInvalidPaths k vpaths e =
     filter (\<lambda>p. p \<in> set vpaths)
       ((if e_projectId e = [] then [''projectId''] else [])
        @ (if e_amount e < 1 / 100 then [''amount''] else [])
        @ (if length (e_description e) < 2 \<or> 200 < length (e_description e)
           then [''description''] else [])
        @ (if e_category e \<in> set (categoriesOf k) then [] else [''category'']))"


definition findById ::
  "(string \<Rightarrow> bool) \<Rightarrow> string \<Rightarrow> ('a \<Rightarrow> bool) \<Rightarrow> 'a list \<Rightarrow> error + 'a option" where
  "findById castable ident m xs =
     (if castable ident then Inr (findOne m xs) else Inl (CastError ''_id'' ident))"

definition createEntry ::
  "(string \<Rightarrow> bool) \<Rightarrow> kind \<Rightarrow> int \<Rightarrow> int \<Rightarrow> string \<Rightarrow> store \<Rightarrow> request \<Rightarrow> entry_body
   \<Rightarrow> (error + entry) \<times> store" where
  "createEntry castable k off now newId st rq body =
     (case authenticated rq of
        Inl e \<Rightarrow> (Inl e, st)
      | Inr userId \<Rightarrow>
         (case (eb_projectId body, eb_amount body, eb_description body) of
            (Some projectId, Some amount, Some description) \<Rightarrow>
              if projectId = [] \<or> amount = 0 \<or> description = []
              then (Inl (BadRequestError ''Project ID, amount, and description are required''), st)
              else if amount \<le> 0
              then (Inl (BadRequestError ''Amount must be greater than 0''), st)
              else
                (case findById castable projectId
                        (matchesProject (byIdQuery projectId userId)) (projects st) of
                   Inl e \<Rightarrow> (Inl e, st)
                 | Inr None \<Rightarrow> (Inl (NotFoundError ''Project not found''), st)
                 | Inr (Some project) \<Rightarrow>
                     let newEntry =
                           \<lparr> e_id = newId, e_userId = userId, e_projectId = projectId,
                             e_amount = amount, e_description = trim description,
                             e_date = (case eb_date body of None \<Rightarrow> now
                                       | Some d \<Rightarrow> newDate off d),
                             e_category = (case eb_category body of
                                             None \<Rightarrow> defaultCategory k | Some c \<Rightarrow> c),
                             e_receiptUrl = (case k of Income \<Rightarrow> None
                                             | Expense \<Rightarrow> map_option trim (eb_receiptUrl body)),
                             e_isActive = True \<rparr>
                     in if entryInvalidPaths k entryPaths newEntry = []
                        then (Inr newEntry, setEntries k (entriesOf k st @ [newEntry]) st)
                        else (Inl (ValidationError (entryInvalidPaths k entryPaths newEntry)), st))
          | _ \<Rightarrow> (Inl (BadRequestError ''Project ID, amount, and description are required''), st)))"


definition createExpenseEntry ::
  "(string \<Rightarrow> bool) \<Rightarrow> int \<Rightarrow> int \<Rightarrow> string \<Rightarrow> store \<Rightarrow> request \<Rightarrow> entry_body
   \<Rightarrow> (error + entry) \<times> store" where
  "createExpenseEntry castable = createEntry castable Expense"

definition replaceEntry :: "entry \<Rightarrow> entry list \<Rightarrow> entry list" where
  "replaceEntry e es = map (\<lambda>x. if e_id x = e_id e then e else x) es"

text \<open>
  The check of an update that changes the project: nothing when the body names no
  project or the project of the entry, otherwise the error of the lookup, if any.
\<close>

definition projectChange ::
  "(string \<Rightarrow> bool) \<Rightarrow> string \<Rightarrow> project list \<Rightarrow> entry \<Rightarrow> string option \<Rightarrow> error option" where
  "projectChange castable userId ps oldEntry bodyProjectId =
     (case bodyProjectId of
        None \<Rightarrow> None
      | Some projectId \<Rightarrow>
          if projectId \<noteq> [] \<and> projectId \<noteq> e_projectId oldEntry
          then (case findById castable projectId (matchesProject (byIdQuery projectId userId)) ps of
                  Inl e \<Rightarrow> Some e
                | Inr None \<Rightarrow> Some (NotFoundError ''Project not found'')
                | Inr (Some project) \<Rightarrow> None)
          else None)"

definition updateEntry ::
  "(string \<Rightarrow> bool) \<Rightarrow> kind \<Rightarrow> int \<Rightarrow> string list \<Rightarrow> store \<Rightarrow> request \<Rightarrow> string \<Rightarrow> entry_body
   \<Rightarrow> (error + entry) \<times> store" where
  "updateEntry castable k off vpaths st rq ident body =
     (case authenticated rq of
        Inl e \<Rightarrow> (Inl e, st)
      | Inr userId \<Rightarrow>
         (case findById castable ident (matchesEntry (byIdQuery ident userId)) (entriesOf k st) of
            Inl e \<Rightarrow> (Inl e, st)
          | Inr None \<Rightarrow> (Inl (NotFoundError (entryNotFound k)), st)
          | Inr (Some oldEntry) \<Rightarrow>
              if (case eb_amount body of None \<Rightarrow> False | Some a \<Rightarrow> a \<le> 0)
              then (Inl (BadRequestError ''Amount must be greater than 0''), st)
              else if truthy (eb_category body) \<and> \<not> recognized (categoriesOf k) (eb_category body)
              then (Inl (BadRequestError ''Invalid category value''), st)
              else
                (case projectChange castable userId (projects st) oldEntry (eb_projectId body) of
                   Some e \<Rightarrow> (Inl e, st)
                 | None \<Rightarrow>
                     let changed = oldEntry
                           \<lparr> e_projectId := orElse (eb_projectId body) (e_projectId oldEntry),
                             e_amount := (case eb_amount body of
                                            None \<Rightarrow> e_amount oldEntry | Some a \<Rightarrow> a),
                             e_description := (if truthy (eb_description body)
                                               then trim (orElse (eb_description body) [])
                                               else e_description oldEntry),
                             e_date := (case eb_date body of None \<Rightarrow> e_date oldEntry
                                        | Some d \<Rightarrow> newDate off d),
                             e_category := orElse (eb_category body) (e_category oldEntry),
                             e_receiptUrl := (case k of Income \<Rightarrow> e_receiptUrl oldEntry
                                              | Expense \<Rightarrow>
                                                 (case eb_receiptUrl body of
                                                    None \<Rightarrow> e_receiptUrl oldEntry
                                                  | Some u \<Rightarrow> Some (trim u))) \<rparr>
                     in if entryInvalidPaths k vpaths changed = []
                        then (Inr changed, setEntries k (replaceEntry changed (entriesOf k st)) st)
                        else (Inl (ValidationError (entryInvalidPaths k vpaths changed)), st))))"


definition updateExpenseEntry ::
  "(string \<Rightarrow> bool) \<Rightarrow> int \<Rightarrow> string list \<Rightarrow> store \<Rightarrow> request \<Rightarrow> string \<Rightarrow> entry_body
   \<Rightarrow> (error + entry) \<times> store" where
  "updateExpenseEntry castable = updateEntry castable Expense"

section \<open>The statements compared with the aggregation code\<close>

text \<open>
  The monthly trend as the specification words it: one bucket for each (year, month)
  that occurs among the records, in ascending order, labelled with the year, a dash and
  the month in two digits, carrying the sum of the amounts and the number of records of
  that month.
\<close>

definition spec_monthBucket :: "entry list \<Rightarrow> int \<times> int \<Rightarrow> trend" where
  "spec_monthBucket es ym =
     \<lparr> t_month = toString (fst ym) @ ''-''
                   @ [digitChar (nat (snd ym div 10)), digitChar (nat (snd ym mod 10))],
       t_amount = sum_list (map e_amount (filter (\<lambda>e. yearMonth e = ym) es)),
       t_count = length (filter (\<lambda>e. yearMonth e = ym) es) \<rparr>"

definition spec_monthlyTrend :: "entry list \<Rightarrow> trend list" where
  "spec_monthlyTrend es = map (spec_monthBucket es) (sorted_list_of_set (yearMonth ` set es))"

text \<open>The records that a statistics controller aggregates: the caller's active entries in the date range.\<close>

definition scopedEntries :: "kind \<Rightarrow> int \<Rightarrow> store \<Rightarrow> request \<Rightarrow> entry list" where
  "scopedEntries k off st rq =
     (case authenticated rq of
        Inl e \<Rightarrow> []
      | Inr userId \<Rightarrow> filter (matchesEntry (matchQuery off userId rq)) (entriesOf k st))"


section \<open>Example data\<close>

definition plainRequest :: "string \<Rightarrow> request" where
  "plainRequest userId =
     \<lparr> rq_userId = Some userId, rq_page = None, rq_limit = None, rq_sortBy = None,
       rq_sortOrder = None, rq_projectId = None, rq_category = None, rq_status = None,
       rq_priority = None, rq_startDate = None, rq_endDate = None, rq_days = None,
       rq_paramStatus = [] \<rparr>"

definition exampleProject :: "string \<Rightarrow> string \<Rightarrow> string \<Rightarrow> bool \<Rightarrow> project" where
  "exampleProject ident userId name active =
     \<lparr> p_id = ident, p_userId = userId, p_name = name, p_clientName = ''Acme'',
       p_expectedPayment = 1000, p_status = ''active'', p_isActive = active \<rparr>"

definition exampleEntry :: "string \<Rightarrow> string \<Rightarrow> iso_date \<Rightarrow> real \<Rightarrow> entry" where
  "exampleEntry ident projectId d a =
     \<lparr> e_id = ident, e_userId = ''u1'', e_projectId = projectId, e_amount = a,
       e_description = ''invoice'', e_date = newDate 0 d, e_category = ''project-payment'',
       e_receiptUrl = None, e_isActive = True \<rparr>"

definition exampleGoal :: savings_goal where
  "exampleGoal =
     \<lparr> g_id = ''g1'', g_userId = ''u1'', g_title = ''Laptop'', g_targetAmount = 100,
       g_currentAmount = 80, g_deadline = 2000, g_description = None, g_category = ''other'',
       g_priority = ''medium'', g_isActive = True, g_isCompleted = False,
       g_type = ''monthly'' \<rparr>"

definition exampleStore :: store where
  "exampleStore =
     \<lparr> projects = [exampleProject ''p1'' ''u1'' ''Website'' True,
                   exampleProject ''p2'' ''u2'' ''Other tenant'' True,
                   exampleProject ''p3'' ''u1'' ''Archived'' False],
       incomes = [exampleEntry ''i1'' ''p1'' (DateOnly 2024 1 15) 100,
                  exampleEntry ''i2'' ''p3'' (DateOnly 2024 2 3) 200,
                  exampleEntry ''i3'' ''p1'' (DateOnly 2024 1 20) 50],
       expenses = [],
       goals = [exampleGoal] \<rparr>"

definition exampleGoalBody :: goal_body where
  "exampleGoalBody =
     \<lparr> gb_title = Some ''Laptop'', gb_targetAmount = Some 100, gb_currentAmount = Some 120,
       gb_deadline = Some (Instant 2000), gb_description = None, gb_category = None,
       gb_priority = None \<rparr>"



text \<open>A request that supplies every filter, with values outside the lists of known ones.\<close>

definition filteredRequest :: request where
  "filteredRequest = (plainRequest ''u1'')
     \<lparr> rq_projectId := Some ''p2'', rq_category := Some ''bogus'', rq_status := Some ''completed'',
       rq_priority := Some ''urgent'', rq_startDate := Some (Instant 5), rq_endDate := None \<rparr>"

text \<open>A request with the date-only end date 2024-01-31, and an entry of the caller dated \<open>t\<close>.\<close>

definition endRequest :: request where
  "endRequest = (plainRequest ''u1'')\<lparr> rq_endDate := Some (DateOnly 2024 1 31) \<rparr>"

definition entryAt :: "int \<Rightarrow> entry" where
  "entryAt t = (exampleEntry ''i9'' ''p1'' (DateOnly 2024 1 31) 10)\<lparr> e_date := t \<rparr>"

section \<open>Pagination: results\<close>

lemma ceil_div_int:
  assumes "0 < (l::int)"
  shows "- ((- t) div l) = (t + l - 1) div l"
proof -
  define q where "q = (- t) div l"
  define r where "r = (- t) mod l"
  have r: "0 \<le> r" "r < l" using assms by (simp_all add: r_def)
  have "- t = q * l + r" by (simp add: q_def r_def)
  then have e: "t + l - 1 = (l - 1 - r) + (- q) * l" by (simp add: algebra_simps)
  have "(t + l - 1) div l = ((l - 1 - r) + (- q) * l) div l" by (simp only: e)
  also have "\<dots> = - q + (l - 1 - r) div l"
    using assms by (simp only: div_mult_self1 [of l "l - 1 - r" "- q"])
  also have "(l - 1 - r) div l = 0" using r by (simp add: div_pos_pos_trivial)
  finally show ?thesis by (simp add: q_def)
qed

lemma pages_int:
  assumes "0 < limit"
  shows "pg_pages (calculatePagination tot page limit) = (tot + limit - 1) div limit"
proof -
  have "\<lceil>real_of_int tot / real_of_int limit\<rceil> = - ((- tot) div limit)"
    by (simp only: ceiling_divide_eq_div)
  then show ?thesis
    using ceil_div_int [OF assms, of tot] by (simp add: calculatePagination_def Let_def)
qed

lemma pages_bounds:
  assumes "0 < limit"
  shows "tot \<le> pg_pages (calculatePagination tot page limit) * limit"
    and "pg_pages (calculatePagination tot page limit) * limit < tot + limit"
proof -
  define d where "d = (tot + limit - 1) div limit"
  define r where "r = (tot + limit - 1) mod limit"
  have p: "pg_pages (calculatePagination tot page limit) = d"
    by (simp add: pages_int [OF assms] d_def)
  have m: "tot + limit - 1 = d * limit + r" by (simp add: d_def r_def)
  have r: "0 \<le> r" "r < limit" using assms by (simp_all add: r_def)
  show "tot \<le> pg_pages (calculatePagination tot page limit) * limit"
    unfolding p using m r by linarith
  show "pg_pages (calculatePagination tot page limit) * limit < tot + limit"
    unfolding p using m r by linarith
qed

lemma getPaginationOptions_range:
  "1 \<le> po_page (getPaginationOptions p l sb so)
   \<and> 1 \<le> po_limit (getPaginationOptions p l sb so)
   \<and> po_limit (getPaginationOptions p l sb so) \<le> 100"
  by (simp add: getPaginationOptions_def)

text \<open>
  C2. For a non-negative total, a page of at least 1 and a limit in 1..100, the number
  of pages is the quotient rounded up: the least number of windows of \<open>limit\<close> records
  that cover \<open>tot\<close> records, which is 0 for an empty result. \<open>hasNext\<close> is
  \<open>page < pages\<close>, \<open>hasPrev\<close> is \<open>page > 1\<close>, the skip offset is
  \<open>(page - 1) * limit\<close>, and page, limit and total are returned as given. A page
  beyond the last one is computed like any other: it has no next page and its window of
  the \<open>tot\<close> records is empty.
\<close>

theorem C2_pagination:
  assumes "0 \<le> tot" and "1 \<le> page" and "1 \<le> limit" and "limit \<le> 100"
  shows "pg_pages (calculatePagination tot page limit) = \<lceil>real_of_int tot / real_of_int limit\<rceil>
       \<and> pg_pages (calculatePagination tot page limit) = (tot + limit - 1) div limit
       \<and> tot \<le> pg_pages (calculatePagination tot page limit) * limit
       \<and> pg_pages (calculatePagination tot page limit) * limit < tot + limit
       \<and> (tot = 0 \<longrightarrow> pg_pages (calculatePagination tot page limit) = 0)
       \<and> pg_hasNext (calculatePagination tot page limit)
           = (page < pg_pages (calculatePagination tot page limit))
       \<and> pg_hasPrev (calculatePagination tot page limit) = (page > 1)
       \<and> getSkipValue page limit = (page - 1) * limit
       \<and> pg_page (calculatePagination tot page limit) = page
       \<and> pg_limit (calculatePagination tot page limit) = limit
       \<and> pg_total (calculatePagination tot page limit) = tot
       \<and> (pg_pages (calculatePagination tot page limit) < page \<longrightarrow>
            \<not> pg_hasNext (calculatePagination tot page limit)
            \<and> (\<forall>xs::'a list. int (length xs) = tot \<longrightarrow> page_slice page limit xs = []))"
proof -
  let ?P = "calculatePagination tot page limit"
  have l: "0 < limit" using assms(3) by simp
  have a0: "pg_pages ?P = \<lceil>real_of_int tot / real_of_int limit\<rceil>"
    by (simp add: calculatePagination_def Let_def)
  have a: "pg_pages ?P = (tot + limit - 1) div limit" by (rule pages_int [OF l])
  have b: "tot \<le> pg_pages ?P * limit" by (rule pages_bounds(1) [OF l])
  have c: "pg_pages ?P * limit < tot + limit" by (rule pages_bounds(2) [OF l])
  have d: "tot = 0 \<longrightarrow> pg_pages ?P = 0"
  proof
    assume z: "tot = 0"
    have "(limit - 1) div limit = 0" using l by (simp add: div_pos_pos_trivial)
    with a z show "pg_pages ?P = 0" by simp
  qed
  have e: "pg_hasNext ?P = (page < pg_pages ?P)"
    by (simp add: calculatePagination_def Let_def)
  have f: "pg_hasPrev ?P = (page > 1)"
    by (simp add: calculatePagination_def Let_def)
  have g: "getSkipValue page limit = (page - 1) * limit"
    by (simp add: getSkipValue_def)
  have h: "pg_page ?P = page \<and> pg_limit ?P = limit \<and> pg_total ?P = tot"
    by (simp add: calculatePagination_def Let_def)
  have i: "pg_pages ?P < page \<longrightarrow>
            \<not> pg_hasNext ?P
            \<and> (\<forall>xs::'a list. int (length xs) = tot \<longrightarrow> page_slice page limit xs = [])"
  proof
    assume beyond: "pg_pages ?P < page"
    then have "pg_pages ?P \<le> page - 1" by simp
    then have "pg_pages ?P * limit \<le> (page - 1) * limit"
      using l by (simp add: mult_right_mono)
    with b have skip: "tot \<le> getSkipValue page limit" by (simp add: g)
    have "\<forall>xs::'a list. int (length xs) = tot \<longrightarrow> page_slice page limit xs = []"
    proof (intro allI impI)
      fix xs :: "'a list"
      assume "int (length xs) = tot"
      with skip have "length xs \<le> nat (getSkipValue page limit)" by simp
      then show "page_slice page limit xs = []" by (simp add: page_slice_def)
    qed
    with beyond e show "\<not> pg_hasNext ?P
        \<and> (\<forall>xs::'a list. int (length xs) = tot \<longrightarrow> page_slice page limit xs = [])"
      by simp
  qed
  from a0 a b c d e f g h i show ?thesis by blast
qed

theorem C2_pagination_witness:
  "pg_pages (calculatePagination 25 4 10) = 3
   \<and> \<not> pg_hasNext (calculatePagination 25 4 10)
   \<and> pg_hasPrev (calculatePagination 25 4 10)
   \<and> getSkipValue 4 10 = 30
   \<and> page_slice 4 10 (replicate 25 ()) = []"
proof -
  have h: "(0::int) \<le> 25" "(1::int) \<le> 4" "(1::int) \<le> 10" "(10::int) \<le> 100" by simp_all
  have len: "int (length (replicate 25 ())) = 25" by simp
  show ?thesis
    using C2_pagination [OF h, where ?'a = unit] len by simp
qed

section \<open>Owner and active-only scoping\<close>

lemma authenticated_Inr:
  "authenticated rq = Inr userId \<Longrightarrow> rq_userId rq = Some userId \<and> userId \<noteq> []"
  by (auto simp: authenticated_def split: option.splits if_splits)

lemma ex_auth: "authenticated (plainRequest ''u1'') = Inr ''u1''"
  by (simp add: authenticated_def plainRequest_def)

lemma withDateRange_scope:
  "q_userId (withDateRange r q) = q_userId q \<and> q_isActive (withDateRange r q) = q_isActive q"
  by (simp add: withDateRange_def)

lemma withProjectId_scope:
  "q_userId (withProjectId v q) = q_userId q \<and> q_isActive (withProjectId v q) = q_isActive q"
  by (simp add: withProjectId_def)

lemma baseQuery_scope:
  "q_userId (baseQuery u) = Some u \<and> q_isActive (baseQuery u) = Some True"
  by (simp add: baseQuery_def)

lemma queriesOf_scope:
  assumes "queriesOf off now opn userId rq = Inr qs" and "q \<in> set qs"
  shows "q_userId q = Some userId \<and> q_isActive q = Some True"
proof (cases opn)
  case GetIncomeEntries
  with assms show ?thesis
    by (auto simp: getIncomeEntriesQuery_def Let_def withDateRange_scope withProjectId_scope
        baseQuery_scope)
next
  case GetExpenseEntries
  with assms show ?thesis
    by (auto simp: getExpenseEntriesQuery_def Let_def withDateRange_scope withProjectId_scope
        baseQuery_scope)
next
  case GetProjects
  with assms show ?thesis
    by (auto simp: getProjectsQuery_def Let_def baseQuery_scope)
next
  case GetProjectsByStatus
  with assms show ?thesis
    by (auto simp: getProjectsByStatusQuery_def split: if_splits)
next
  case GetSavingsGoals
  with assms show ?thesis
    by (auto simp: getSavingsGoalsQuery_def Let_def baseQuery_scope)
next
  case GetActiveSavingsGoals
  with assms show ?thesis by (auto simp: findActiveByUserQuery_def)
next
  case GetCompletedSavingsGoals
  with assms show ?thesis by (auto simp: findCompletedByUserQuery_def)
next
  case GetExpiringSoonSavingsGoals
  with assms show ?thesis
    by (auto simp: findExpiringSoonQuery_def Let_def split: if_splits)
next
  case GetIncomeStats
  with assms show ?thesis by (auto simp: matchQuery_def withDateRange_scope baseQuery_scope)
next
  case GetIncomeByProject
  with assms show ?thesis by (auto simp: matchQuery_def withDateRange_scope baseQuery_scope)
next
  case GetExpenseStats
  with assms show ?thesis by (auto simp: matchQuery_def withDateRange_scope baseQuery_scope)
next
  case GetExpensesByProject
  with assms show ?thesis by (auto simp: matchQuery_def withDateRange_scope baseQuery_scope)
next
  case GetProjectStats
  with assms show ?thesis by (auto simp: baseQuery_scope)
next
  case GetSavingsGoalsStats
  with assms show ?thesis
    by (auto simp: baseQuery_scope findActiveByUserQuery_def findCompletedByUserQuery_def
        findExpiringSoonQuery_def Let_def)
qed

lemma scoped_matchesProject:
  "q_userId q = Some u \<Longrightarrow> q_isActive q = Some True \<Longrightarrow> matchesProject q p
   \<Longrightarrow> p_userId p = u \<and> p_isActive p"
  by (simp add: matchesProject_def opt_eq_def)

lemma scoped_matchesEntry:
  "q_userId q = Some u \<Longrightarrow> q_isActive q = Some True \<Longrightarrow> matchesEntry q e
   \<Longrightarrow> e_userId e = u \<and> e_isActive e"
  by (simp add: matchesEntry_def opt_eq_def)

lemma scoped_matchesGoal:
  "q_userId q = Some u \<Longrightarrow> q_isActive q = Some True \<Longrightarrow> matchesGoal q g
   \<Longrightarrow> g_userId g = u \<and> g_isActive g"
  by (simp add: matchesGoal_def opt_eq_def)

text \<open>
  C1. Whatever list or statistics operation runs and whatever filters the caller
  supplies, each query descriptor that reaches the store carries \<open>userId\<close> equal to the
  caller's identity and \<open>isActive = true\<close>. The other keys only narrow the result: a
  project, entry or savings goal that matches the descriptor belongs to the caller and is
  active. The same holds for the lookup of one document by id.
\<close>

theorem C1_owner_active_scoping:
  assumes "storeQueries off now opn rq = Inr qs" and "q \<in> set qs"
  shows "rq_userId rq \<noteq> None
       \<and> q_userId q = rq_userId rq
       \<and> q_isActive q = Some True
       \<and> (\<forall>p. matchesProject q p \<longrightarrow> Some (p_userId p) = rq_userId rq \<and> p_isActive p)
       \<and> (\<forall>e. matchesEntry q e \<longrightarrow> Some (e_userId e) = rq_userId rq \<and> e_isActive e)
       \<and> (\<forall>g. matchesGoal q g \<longrightarrow> Some (g_userId g) = rq_userId rq \<and> g_isActive g)
       \<and> (\<forall>ident. q_userId (byIdQuery ident (the (rq_userId rq))) = rq_userId rq
                  \<and> q_isActive (byIdQuery ident (the (rq_userId rq))) = Some True)"
proof -
  from assms(1) obtain userId where
    au: "authenticated rq = Inr userId" and qo: "queriesOf off now opn userId rq = Inr qs"
    by (auto simp: storeQueries_def split: sum.splits)
  have u: "rq_userId rq = Some userId" using authenticated_Inr [OF au] by simp
  have sc: "q_userId q = Some userId \<and> q_isActive q = Some True"
    by (rule queriesOf_scope [OF qo assms(2)])
  have mp: "\<forall>p. matchesProject q p \<longrightarrow> Some (p_userId p) = rq_userId rq \<and> p_isActive p"
    using sc u scoped_matchesProject [of q userId] by auto
  have me: "\<forall>e. matchesEntry q e \<longrightarrow> Some (e_userId e) = rq_userId rq \<and> e_isActive e"
    using sc u scoped_matchesEntry [of q userId] by auto
  have mg: "\<forall>g. matchesGoal q g \<longrightarrow> Some (g_userId g) = rq_userId rq \<and> g_isActive g"
    using sc u scoped_matchesGoal [of q userId] by auto
  have bi: "\<forall>ident. q_userId (byIdQuery ident (the (rq_userId rq))) = rq_userId rq
                  \<and> q_isActive (byIdQuery ident (the (rq_userId rq))) = Some True"
    by (simp add: u byIdQuery_def)
  from u sc mp me mg bi show ?thesis by simp
qed

theorem C1_owner_active_scoping_witness:
  "storeQueries 0 1000 GetSavingsGoals filteredRequest
     = Inr [(baseQuery ''u1'')\<lparr> q_isCompleted := Some True, q_category := Some ''bogus'' \<rparr>]
   \<and> q_userId ((baseQuery ''u1'')\<lparr> q_isCompleted := Some True, q_category := Some ''bogus'' \<rparr>)
       = Some ''u1''
   \<and> q_isActive ((baseQuery ''u1'')\<lparr> q_isCompleted := Some True, q_category := Some ''bogus'' \<rparr>)
       = Some True
   \<and> storeQueries 0 1000 GetIncomeEntries filteredRequest
     = Inr [(baseQuery ''u1'')\<lparr> q_projectId := Some ''p2'',
              q_date := Some \<lparr> dc_gte = Some 5, dc_lte = None \<rparr> \<rparr>]"
proof -
  let ?q = "(baseQuery ''u1'')\<lparr> q_isCompleted := Some True, q_category := Some ''bogus'' \<rparr>"
  have s: "storeQueries 0 1000 GetSavingsGoals filteredRequest = Inr [?q]"
    by (simp add: storeQueries_def authenticated_def getSavingsGoalsQuery_def filteredRequest_def
        plainRequest_def truthy_def recognized_def priorities_def)
  have i: "storeQueries 0 1000 GetIncomeEntries filteredRequest
     = Inr [(baseQuery ''u1'')\<lparr> q_projectId := Some ''p2'',
              q_date := Some \<lparr> dc_gte = Some 5, dc_lte = None \<rparr> \<rparr>]"
    by (simp add: storeQueries_def authenticated_def getIncomeEntriesQuery_def filteredRequest_def
        plainRequest_def withProjectId_def truthy_def recognized_def incomeCategories_def
        getDateRange_def withDateRange_def newDate.simps)
  have m: "?q \<in> set [?q]" by simp
  have u: "rq_userId filteredRequest = Some ''u1''"
    by (simp add: filteredRequest_def plainRequest_def)
  from C1_owner_active_scoping [OF s m] u
  have "q_userId ?q = Some ''u1'' \<and> q_isActive ?q = Some True" by simp
  with s i show ?thesis by simp
qed

section \<open>Savings progress\<close>

text \<open>
  C3. When the caller is authenticated, the goal is found (owned by the caller and
  active) and holds a non-negative amount, subtracting more than \<open>currentAmount\<close>
  fails: the controller throws the bad-request error
  \<open>Cannot subtract more than current amount\<close> (the failure that the specification
  names InsufficientProgress) before any save, and the store is returned unchanged, so the
  goal keeps its amount and nothing is clamped to zero.
\<close>

theorem C3_subtract_overdraft_rejected:
  assumes "authenticated rq = Inr userId"
      and "findOne (matchesGoal (byIdQuery ident userId)) (goals st) = Some g"
      and "0 \<le> g_currentAmount g"
      and "g_currentAmount g < amount"
  shows "updateSavingsGoalProgress now vpaths st rq ident (Some amount) (Some ''subtract'')
         = (Inl (BadRequestError ''Cannot subtract more than current amount''), st)"
  using assms by (simp add: updateSavingsGoalProgress_def recognized_def Let_def)

theorem C3_subtract_overdraft_rejected_witness:
  "updateSavingsGoalProgress 1000 goalPaths exampleStore (plainRequest ''u1'') ''g1''
      (Some 80.01) (Some ''subtract'')
   = (Inl (BadRequestError ''Cannot subtract more than current amount''), exampleStore)
   \<and> g_currentAmount exampleGoal = 80"
proof -
  have a: "authenticated (plainRequest ''u1'') = Inr ''u1''"
    by (simp add: authenticated_def plainRequest_def)
  have f: "findOne (matchesGoal (byIdQuery ''g1'' ''u1'')) (goals exampleStore) = Some exampleGoal"
    by (simp add: findOne_def matchesGoal_def byIdQuery_def emptyQuery_def opt_eq_def
        opt_range_def exampleStore_def exampleGoal_def)
  have c: "0 \<le> g_currentAmount exampleGoal" "g_currentAmount exampleGoal < 80.01"
    by (simp_all add: exampleGoal_def)
  show ?thesis
    using C3_subtract_overdraft_rejected [OF a f c] by (simp add: exampleGoal_def)
qed

lemma save_Inr: "save now vpaths g = Inr g' \<Longrightarrow> g' = preSave g"
  by (simp add: save_def split: if_splits)

lemma preSave_completed:
  "g_targetAmount g \<le> g_currentAmount g \<Longrightarrow> g_isCompleted (preSave g)"
  by (simp add: preSave_def)

lemma preSave_keeps_completed: "g_isCompleted g \<Longrightarrow> g_isCompleted (preSave g)"
  by (simp add: preSave_def)

lemma preSave_only_sets:
  "g_isCompleted (preSave g) = (g_isCompleted g \<or> g_targetAmount g \<le> g_currentAmount g)"
  by (auto simp: preSave_def)

lemma preSave_fields:
  "g_currentAmount (preSave g) = g_currentAmount g \<and> g_targetAmount (preSave g) = g_targetAmount g
   \<and> g_id (preSave g) = g_id g \<and> g_isActive (preSave g) = g_isActive g"
  by (simp add: preSave_def)

lemma saveGoal_Inr:
  "saveGoal now vpaths st g = (Inr g', st') \<Longrightarrow> g' = preSave g"
  by (auto simp: saveGoal_def dest: save_Inr split: sum.splits)

lemma callMethod_completed:
  assumes "callMethod now vpaths g m = Inr g'" and "g_isCompleted g" and "\<not> g_isCompleted g'"
  shows "m = MarkActive"
proof (cases m)
  case (AddProgress a)
  with assms show ?thesis
    by (auto simp: addProgress_def preSave_only_sets dest!: save_Inr)
next
  case (SubtractProgress a)
  with assms show ?thesis
    by (auto simp: subtractProgress_def preSave_only_sets dest!: save_Inr)
next
  case MarkCompleted
  with assms show ?thesis
    by (auto simp: markCompleted_def preSave_only_sets dest!: save_Inr)
next
  case MarkActive
  then show ?thesis by simp
qed

lemma updateSavingsGoalProgress_keeps:
  assumes "updateSavingsGoalProgress now vpaths st rq ident amount action = (Inr g', st')"
      and "authenticated rq = Inr userId"
      and "findOne (matchesGoal (byIdQuery ident userId)) (goals st) = Some g"
      and "g_isCompleted g"
  shows "g_isCompleted g'"
  using assms
  by (auto simp: updateSavingsGoalProgress_def Let_def preSave_only_sets
      split: option.splits if_splits dest!: saveGoal_Inr)

lemma updateSavingsGoal_keeps:
  assumes "updateSavingsGoal off now vpaths st rq ident body = (Inr g', st')"
      and "authenticated rq = Inr userId"
      and "findOne (matchesGoal (byIdQuery ident userId)) (goals st) = Some g"
      and "g_isCompleted g"
  shows "g_isCompleted g'"
proof -
  from assms obtain h where "saveGoal now vpaths st h = (Inr g', st')" and "g_isCompleted h"
    by (auto simp: updateSavingsGoal_def split: if_splits)
  then show ?thesis by (auto simp: preSave_only_sets dest!: saveGoal_Inr)
qed

lemma deleteSavingsGoal_keeps:
  assumes "deleteSavingsGoal now vpaths st rq ident = (Inr g', st')"
      and "authenticated rq = Inr userId"
      and "findOne (matchesGoal (byIdQuery ident userId)) (goals st) = Some g"
      and "g_isCompleted g"
  shows "g_isCompleted g'"
  using assms
  by (auto simp: deleteSavingsGoal_def preSave_only_sets dest!: saveGoal_Inr)

lemma findOne_mem: "findOne m xs = Some x \<Longrightarrow> x \<in> set xs \<and> m x"
proof -
  assume a: "findOne m xs = Some x"
  then obtain ys where "filter m xs = x # ys"
    by (auto simp: findOne_def split: list.splits)
  then have "x \<in> set (filter m xs)" by simp
  then show ?thesis by simp
qed

lemma replaceGoal_mem:
  "g \<in> set gs \<Longrightarrow> g_id g' = g_id g \<Longrightarrow> g' \<in> set (replaceGoal g' gs)"
  by (force simp: replaceGoal_def)

lemma invalid_amount_change:
  assumes "goalInvalidPaths now vpaths g = []" and "0 \<le> c"
  shows "goalInvalidPaths now vpaths (g\<lparr> g_currentAmount := c \<rparr>) = []"
  using assms by (simp add: goalInvalidPaths_def)

lemma invalid_completed_change:
  "goalInvalidPaths now vpaths (g\<lparr> g_isCompleted := b \<rparr>) = goalInvalidPaths now vpaths g"
  by (simp add: goalInvalidPaths_def)

lemma invalid_active_change:
  "goalInvalidPaths now vpaths (g\<lparr> g_isActive := b \<rparr>) = goalInvalidPaths now vpaths g"
  by (simp add: goalInvalidPaths_def)

lemma save_valid: "goalInvalidPaths now vpaths g = [] \<Longrightarrow> save now vpaths g = Inr (preSave g)"
  by (simp add: save_def)

lemma saveGoal_valid:
  "goalInvalidPaths now vpaths g = [] \<Longrightarrow>
   saveGoal now vpaths st g = (Inr (preSave g), st\<lparr> goals := replaceGoal (preSave g) (goals st) \<rparr>)"
  by (simp add: saveGoal_def save_valid)

lemma progress_add_succeeds:
  assumes "authenticated rq = Inr userId"
      and "findOne (matchesGoal (byIdQuery ident userId)) (goals st) = Some g"
      and "0 < a" and "0 \<le> g_currentAmount g"
      and "goalInvalidPaths now vpaths g = []"
  shows "updateSavingsGoalProgress now vpaths st rq ident (Some a) (Some ''add'')
         = (Inr (preSave (g\<lparr> g_currentAmount := g_currentAmount g + a \<rparr>)),
            st\<lparr> goals := replaceGoal (preSave (g\<lparr> g_currentAmount := g_currentAmount g + a \<rparr>))
                             (goals st) \<rparr>)"
proof -
  have v: "goalInvalidPaths now vpaths (g\<lparr> g_currentAmount := g_currentAmount g + a \<rparr>) = []"
    using assms(3,4,5) by (simp add: invalid_amount_change)
  show ?thesis
    using assms(1-3) by (simp add: updateSavingsGoalProgress_def recognized_def saveGoal_valid [OF v])
qed

lemma progress_subtract_succeeds:
  assumes "authenticated rq = Inr userId"
      and "findOne (matchesGoal (byIdQuery ident userId)) (goals st) = Some g"
      and "0 < a" and "a \<le> g_currentAmount g"
      and "goalInvalidPaths now vpaths g = []"
  shows "updateSavingsGoalProgress now vpaths st rq ident (Some a) (Some ''subtract'')
         = (Inr (preSave (g\<lparr> g_currentAmount := g_currentAmount g - a \<rparr>)),
            st\<lparr> goals := replaceGoal (preSave (g\<lparr> g_currentAmount := g_currentAmount g - a \<rparr>))
                             (goals st) \<rparr>)"
proof -
  have v: "goalInvalidPaths now vpaths (g\<lparr> g_currentAmount := g_currentAmount g - a \<rparr>) = []"
    using assms(4,5) by (simp add: invalid_amount_change)
  show ?thesis
    using assms(1-4)
    by (simp add: updateSavingsGoalProgress_def recognized_def Let_def saveGoal_valid [OF v])
qed

text \<open>
  C4. A save whose validated paths are in order writes the goal that the pre-save hook
  returns: \<open>isCompleted\<close> is true afterwards exactly when it was true before or
  \<open>currentAmount\<close> has reached \<open>targetAmount\<close>, and the amount is written as it
  is. The progress controller, for an authenticated caller, a found goal with valid paths
  and a positive amount, does save: adding returns and stores the changed goal, completed
  once the target is reached, and adding 25 to 80 of 100 stores 105, not 100; subtracting
  an amount up to \<open>currentAmount\<close> returns and stores the reduced goal, and a goal
  that was completed stays completed even below the target (from 105, subtracting 50
  stores 55). Nothing but \<open>markActive\<close> turns \<open>isCompleted\<close> off: of the instance
  methods only it can return a completed goal as not completed, which it does when the
  amount is below the target, and the update, progress and delete controllers return a
  completed goal completed.
\<close>

theorem C4_completion_transition:
  "(goalInvalidPaths now vpaths g = [] \<longrightarrow> save now vpaths g = Inr (preSave g))
   \<and> (save now vpaths g = Inr g' \<longrightarrow> g' = preSave g)
   \<and> g_isCompleted (preSave g) = (g_isCompleted g \<or> g_targetAmount g \<le> g_currentAmount g)
   \<and> g_currentAmount (preSave g) = g_currentAmount g
   \<and> (authenticated rq = Inr userId
        \<and> findOne (matchesGoal (byIdQuery ident userId)) (goals st) = Some g
        \<and> 0 < a \<and> 0 \<le> g_currentAmount g \<and> goalInvalidPaths now vpaths g = []
        \<longrightarrow> (\<exists>h. updateSavingsGoalProgress now vpaths st rq ident (Some a) (Some ''add'')
                    = (Inr h, st\<lparr> goals := replaceGoal h (goals st) \<rparr>)
                \<and> h \<in> set (replaceGoal h (goals st))
                \<and> g_id h = g_id g \<and> g_targetAmount h = g_targetAmount g
                \<and> g_currentAmount g \<le> g_currentAmount h
                \<and> (g_currentAmount g = 80 \<and> a = 25 \<longrightarrow> g_currentAmount h = 105)
                \<and> g_isCompleted h = (g_isCompleted g \<or> g_targetAmount g \<le> g_currentAmount h)))
   \<and> (authenticated rq = Inr userId
        \<and> findOne (matchesGoal (byIdQuery ident userId)) (goals st) = Some g
        \<and> 0 < a \<and> a \<le> g_currentAmount g \<and> goalInvalidPaths now vpaths g = []
        \<longrightarrow> (\<exists>h. updateSavingsGoalProgress now vpaths st rq ident (Some a) (Some ''subtract'')
                    = (Inr h, st\<lparr> goals := replaceGoal h (goals st) \<rparr>)
                \<and> h \<in> set (replaceGoal h (goals st))
                \<and> g_id h = g_id g \<and> g_targetAmount h = g_targetAmount g
                \<and> 0 \<le> g_currentAmount h \<and> g_currentAmount h \<le> g_currentAmount g
                \<and> (g_currentAmount g = 105 \<and> a = 50 \<longrightarrow> g_currentAmount h = 55)
                \<and> g_isCompleted h = (g_isCompleted g \<or> g_targetAmount g \<le> g_currentAmount h)))
   \<and> (callMethod now vpaths g m = Inr g' \<and> g_isCompleted g \<and> \<not> g_isCompleted g'
        \<longrightarrow> m = MarkActive)
   \<and> (goalInvalidPaths now vpaths g = [] \<and> g_currentAmount g < g_targetAmount g
        \<longrightarrow> markActive now vpaths g = Inr (g\<lparr> g_isCompleted := False \<rparr>))
   \<and> (authenticated rq = Inr userId
        \<and> findOne (matchesGoal (byIdQuery ident userId)) (goals st) = Some g
        \<and> g_isCompleted g
        \<longrightarrow> (updateSavingsGoalProgress now vpaths st rq ident amount action = (Inr g', st')
              \<longrightarrow> g_isCompleted g')
          \<and> (updateSavingsGoal off now vpaths st rq ident body = (Inr g', st')
              \<longrightarrow> g_isCompleted g')
          \<and> (deleteSavingsGoal now vpaths st rq ident = (Inr g', st') \<longrightarrow> g_isCompleted g'))"
proof -
  have p1: "goalInvalidPaths now vpaths g = [] \<longrightarrow> save now vpaths g = Inr (preSave g)"
    by (simp add: save_valid)
  have p2: "save now vpaths g = Inr g' \<longrightarrow> g' = preSave g"
    using save_Inr by blast
  have p3: "g_isCompleted (preSave g) = (g_isCompleted g \<or> g_targetAmount g \<le> g_currentAmount g)"
    by (rule preSave_only_sets)
  have p4: "g_currentAmount (preSave g) = g_currentAmount g"
    by (simp add: preSave_fields)
  have p5: "authenticated rq = Inr userId
        \<and> findOne (matchesGoal (byIdQuery ident userId)) (goals st) = Some g
        \<and> 0 < a \<and> 0 \<le> g_currentAmount g \<and> goalInvalidPaths now vpaths g = []
        \<longrightarrow> (\<exists>h. updateSavingsGoalProgress now vpaths st rq ident (Some a) (Some ''add'')
                    = (Inr h, st\<lparr> goals := replaceGoal h (goals st) \<rparr>)
                \<and> h \<in> set (replaceGoal h (goals st))
                \<and> g_id h = g_id g \<and> g_targetAmount h = g_targetAmount g
                \<and> g_currentAmount g \<le> g_currentAmount h
                \<and> (g_currentAmount g = 80 \<and> a = 25 \<longrightarrow> g_currentAmount h = 105)
                \<and> g_isCompleted h = (g_isCompleted g \<or> g_targetAmount g \<le> g_currentAmount h))"
  proof
    assume h: "authenticated rq = Inr userId
        \<and> findOne (matchesGoal (byIdQuery ident userId)) (goals st) = Some g
        \<and> 0 < a \<and> 0 \<le> g_currentAmount g \<and> goalInvalidPaths now vpaths g = []"
    let ?h = "preSave (g\<lparr> g_currentAmount := g_currentAmount g + a \<rparr>)"
    have e: "updateSavingsGoalProgress now vpaths st rq ident (Some a) (Some ''add'')
             = (Inr ?h, st\<lparr> goals := replaceGoal ?h (goals st) \<rparr>)"
      by (rule progress_add_succeeds [OF conjunct1 [OF h] conjunct1 [OF conjunct2 [OF h]]
            conjunct1 [OF conjunct2 [OF conjunct2 [OF h]]]
            conjunct1 [OF conjunct2 [OF conjunct2 [OF conjunct2 [OF h]]]]
            conjunct2 [OF conjunct2 [OF conjunct2 [OF conjunct2 [OF h]]]]])
    have "g \<in> set (goals st)"
      using findOne_mem [OF conjunct1 [OF conjunct2 [OF h]]] by simp
    moreover have i: "g_id ?h = g_id g" by (simp add: preSave_fields)
    ultimately have m: "?h \<in> set (replaceGoal ?h (goals st))" by (rule replaceGoal_mem)
    have f: "g_targetAmount ?h = g_targetAmount g \<and> g_currentAmount g \<le> g_currentAmount ?h
             \<and> (g_currentAmount g = 80 \<and> a = 25 \<longrightarrow> g_currentAmount ?h = 105)"
      using h by (simp add: preSave_fields)
    have c: "g_isCompleted ?h = (g_isCompleted g \<or> g_targetAmount g \<le> g_currentAmount ?h)"
      by (simp add: preSave_only_sets preSave_fields)
    show "\<exists>h. updateSavingsGoalProgress now vpaths st rq ident (Some a) (Some ''add'')
                    = (Inr h, st\<lparr> goals := replaceGoal h (goals st) \<rparr>)
                \<and> h \<in> set (replaceGoal h (goals st))
                \<and> g_id h = g_id g \<and> g_targetAmount h = g_targetAmount g
                \<and> g_currentAmount g \<le> g_currentAmount h
                \<and> (g_currentAmount g = 80 \<and> a = 25 \<longrightarrow> g_currentAmount h = 105)
                \<and> g_isCompleted h = (g_isCompleted g \<or> g_targetAmount g \<le> g_currentAmount h)"
      apply (rule exI [of _ ?h])
      apply (rule conjI, rule e)
      apply (rule conjI, rule m)
      apply (rule conjI, rule i)
      apply (rule conjI, rule conjunct1 [OF f])
      apply (rule conjI, rule conjunct1 [OF conjunct2 [OF f]])
      apply (rule conjI, rule conjunct2 [OF conjunct2 [OF f]])
      apply (rule c)
      done
  qed
  have p6: "authenticated rq = Inr userId
        \<and> findOne (matchesGoal (byIdQuery ident userId)) (goals st) = Some g
        \<and> 0 < a \<and> a \<le> g_currentAmount g \<and> goalInvalidPaths now vpaths g = []
        \<longrightarrow> (\<exists>h. updateSavingsGoalProgress now vpaths st rq ident (Some a) (Some ''subtract'')
                    = (Inr h, st\<lparr> goals := replaceGoal h (goals st) \<rparr>)
                \<and> h \<in> set (replaceGoal h (goals st))
                \<and> g_id h = g_id g \<and> g_targetAmount h = g_targetAmount g
                \<and> 0 \<le> g_currentAmount h \<and> g_currentAmount h \<le> g_currentAmount g
                \<and> (g_currentAmount g = 105 \<and> a = 50 \<longrightarrow> g_currentAmount h = 55)
                \<and> g_isCompleted h = (g_isCompleted g \<or> g_targetAmount g \<le> g_currentAmount h))"
  proof
    assume h: "authenticated rq = Inr userId
        \<and> findOne (matchesGoal (byIdQuery ident userId)) (goals st) = Some g
        \<and> 0 < a \<and> a \<le> g_currentAmount g \<and> goalInvalidPaths now vpaths g = []"
    let ?h = "preSave (g\<lparr> g_currentAmount := g_currentAmount g - a \<rparr>)"
    have e: "updateSavingsGoalProgress now vpaths st rq ident (Some a) (Some ''subtract'')
             = (Inr ?h, st\<lparr> goals := replaceGoal ?h (goals st) \<rparr>)"
      by (rule progress_subtract_succeeds [OF conjunct1 [OF h] conjunct1 [OF conjunct2 [OF h]]
            conjunct1 [OF conjunct2 [OF conjunct2 [OF h]]]
            conjunct1 [OF conjunct2 [OF conjunct2 [OF conjunct2 [OF h]]]]
            conjunct2 [OF conjunct2 [OF conjunct2 [OF conjunct2 [OF h]]]]])
    have "g \<in> set (goals st)"
      using findOne_mem [OF conjunct1 [OF conjunct2 [OF h]]] by simp
    moreover have i: "g_id ?h = g_id g" by (simp add: preSave_fields)
    ultimately have m: "?h \<in> set (replaceGoal ?h (goals st))" by (rule replaceGoal_mem)
    have f: "g_targetAmount ?h = g_targetAmount g
             \<and> 0 \<le> g_currentAmount ?h \<and> g_currentAmount ?h \<le> g_currentAmount g
             \<and> (g_currentAmount g = 105 \<and> a = 50 \<longrightarrow> g_currentAmount ?h = 55)"
      using h by (simp add: preSave_fields)
    have c: "g_isCompleted ?h = (g_isCompleted g \<or> g_targetAmount g \<le> g_currentAmount ?h)"
      by (simp add: preSave_only_sets preSave_fields)
    show "\<exists>h. updateSavingsGoalProgress now vpaths st rq ident (Some a) (Some ''subtract'')
                    = (Inr h, st\<lparr> goals := replaceGoal h (goals st) \<rparr>)
                \<and> h \<in> set (replaceGoal h (goals st))
                \<and> g_id h = g_id g \<and> g_targetAmount h = g_targetAmount g
                \<and> 0 \<le> g_currentAmount h \<and> g_currentAmount h \<le> g_currentAmount g
                \<and> (g_currentAmount g = 105 \<and> a = 50 \<longrightarrow> g_currentAmount h = 55)
                \<and> g_isCompleted h = (g_isCompleted g \<or> g_targetAmount g \<le> g_currentAmount h)"
      apply (rule exI [of _ ?h])
      apply (rule conjI, rule e)
      apply (rule conjI, rule m)
      apply (rule conjI, rule i)
      apply (rule conjI, rule conjunct1 [OF f])
      apply (rule conjI, rule conjunct1 [OF conjunct2 [OF f]])
      apply (rule conjI, rule conjunct1 [OF conjunct2 [OF conjunct2 [OF f]]])
      apply (rule conjI, rule conjunct2 [OF conjunct2 [OF conjunct2 [OF f]]])
      apply (rule c)
      done
  qed
  have p7: "callMethod now vpaths g m = Inr g' \<and> g_isCompleted g \<and> \<not> g_isCompleted g'
        \<longrightarrow> m = MarkActive"
    using callMethod_completed by blast
  have p8: "goalInvalidPaths now vpaths g = [] \<and> g_currentAmount g < g_targetAmount g
        \<longrightarrow> markActive now vpaths g = Inr (g\<lparr> g_isCompleted := False \<rparr>)"
    by (simp add: markActive_def save_def invalid_completed_change preSave_def)
  have p9: "authenticated rq = Inr userId
        \<and> findOne (matchesGoal (byIdQuery ident userId)) (goals st) = Some g
        \<and> g_isCompleted g
        \<longrightarrow> (updateSavingsGoalProgress now vpaths st rq ident amount action = (Inr g', st')
              \<longrightarrow> g_isCompleted g')
          \<and> (updateSavingsGoal off now vpaths st rq ident body = (Inr g', st')
              \<longrightarrow> g_isCompleted g')
          \<and> (deleteSavingsGoal now vpaths st rq ident = (Inr g', st') \<longrightarrow> g_isCompleted g')"
    by (metis updateSavingsGoalProgress_keeps updateSavingsGoal_keeps deleteSavingsGoal_keeps)
  show ?thesis
    apply (rule conjI, rule p1)
    apply (rule conjI, rule p2)
    apply (rule conjI, rule p3)
    apply (rule conjI, rule p4)
    apply (rule conjI, rule p5)
    apply (rule conjI, rule p6)
    apply (rule conjI, rule p7)
    apply (rule conjI, rule p8)
    apply (rule p9)
    done
qed

lemma ex_goal_valid:
  "goalInvalidPaths 1000 goalPaths (exampleGoal\<lparr> g_currentAmount := c, g_isCompleted := b \<rparr>)
   = (if c < 0 then [''currentAmount''] else [])"
  by (simp add: goalInvalidPaths_def goalPaths_def exampleGoal_def goalCategories_def
      priorities_def goalTypes_def)

lemma ex_goal_found:
  "findOne (matchesGoal (byIdQuery ''g1'' ''u1''))
     (goals (exampleStore\<lparr> goals := [exampleGoal\<lparr> g_currentAmount := c, g_isCompleted := b \<rparr>] \<rparr>))
   = Some (exampleGoal\<lparr> g_currentAmount := c, g_isCompleted := b \<rparr>)"
  by (simp add: findOne_def matchesGoal_def byIdQuery_def emptyQuery_def opt_eq_def
      opt_range_def exampleGoal_def)

lemma ex_goal_start:
  "exampleStore\<lparr> goals := [exampleGoal\<lparr> g_currentAmount := 80, g_isCompleted := False \<rparr>] \<rparr>
   = exampleStore"
  "exampleGoal\<lparr> g_currentAmount := 80, g_isCompleted := False \<rparr> = exampleGoal"
  "exampleStore\<lparr> goals := [exampleGoal] \<rparr> = exampleStore"
  by (simp_all add: exampleStore_def exampleGoal_def)

theorem C4_completion_transition_witness:
  "updateSavingsGoalProgress 1000 goalPaths exampleStore (plainRequest ''u1'') ''g1''
       (Some 25) (Some ''add'')
     = (Inr (exampleGoal\<lparr> g_currentAmount := 105, g_isCompleted := True \<rparr>),
        exampleStore\<lparr> goals := [exampleGoal\<lparr> g_currentAmount := 105, g_isCompleted := True \<rparr>] \<rparr>)
   \<and> updateSavingsGoalProgress 1000 goalPaths
       (exampleStore\<lparr> goals := [exampleGoal\<lparr> g_currentAmount := 105, g_isCompleted := True \<rparr>] \<rparr>)
       (plainRequest ''u1'') ''g1'' (Some 50) (Some ''subtract'')
     = (Inr (exampleGoal\<lparr> g_currentAmount := 55, g_isCompleted := True \<rparr>),
        exampleStore\<lparr> goals := [exampleGoal\<lparr> g_currentAmount := 55, g_isCompleted := True \<rparr>] \<rparr>)
   \<and> markActive 1000 goalPaths (exampleGoal\<lparr> g_currentAmount := 55, g_isCompleted := True \<rparr>)
     = Inr (exampleGoal\<lparr> g_currentAmount := 55, g_isCompleted := False \<rparr>)"
proof -
  let ?start = "exampleGoal\<lparr> g_currentAmount := 80, g_isCompleted := False \<rparr>"
  let ?done = "exampleGoal\<lparr> g_currentAmount := 105, g_isCompleted := True \<rparr>"
  let ?less = "exampleGoal\<lparr> g_currentAmount := 55, g_isCompleted := True \<rparr>"
  let ?st0 = "exampleStore\<lparr> goals := [?start] \<rparr>"
  let ?st1 = "exampleStore\<lparr> goals := [?done] \<rparr>"
  note inst = C4_completion_transition [where now = 1000 and vpaths = goalPaths
      and rq = "plainRequest ''u1''" and userId = "''u1''" and ident = "''g1''"]
  have f0: "findOne (matchesGoal (byIdQuery ''g1'' ''u1'')) (goals ?st0) = Some ?start"
    by (rule ex_goal_found)
  have f1: "findOne (matchesGoal (byIdQuery ''g1'' ''u1'')) (goals ?st1) = Some ?done"
    by (rule ex_goal_found)
  have v0: "goalInvalidPaths 1000 goalPaths ?start = []" by (simp add: ex_goal_valid)
  have v1: "goalInvalidPaths 1000 goalPaths ?done = []" by (simp add: ex_goal_valid)
  have v2: "goalInvalidPaths 1000 goalPaths ?less = []" by (simp add: ex_goal_valid)
  have pre: "authenticated (plainRequest ''u1'') = Inr ''u1''
        \<and> findOne (matchesGoal (byIdQuery ''g1'' ''u1'')) (goals ?st0) = Some ?start
        \<and> (0::real) < 25 \<and> 0 \<le> g_currentAmount ?start
        \<and> goalInvalidPaths 1000 goalPaths ?start = []"
    apply (rule conjI, rule ex_auth)
    apply (rule conjI, rule f0)
    apply (rule conjI, simp)
    apply (rule conjI, simp add: exampleGoal_def)
    apply (rule v0)
    done
  from inst [where st = ?st0 and g = ?start and a = 25, THEN conjunct2, THEN conjunct2,
      THEN conjunct2, THEN conjunct2, THEN conjunct1, THEN mp, OF pre]
  obtain h where h: "updateSavingsGoalProgress 1000 goalPaths ?st0 (plainRequest ''u1'') ''g1''
                       (Some 25) (Some ''add'')
                     = (Inr h, ?st0\<lparr> goals := replaceGoal h (goals ?st0) \<rparr>)"
    and hc: "g_currentAmount ?start = 80 \<and> (25::real) = 25 \<longrightarrow> g_currentAmount h = 105"
    and hd: "g_isCompleted h = (g_isCompleted ?start \<or> g_targetAmount ?start \<le> g_currentAmount h)"
    by blast
  have a0: "updateSavingsGoalProgress 1000 goalPaths ?st0 (plainRequest ''u1'') ''g1''
             (Some 25) (Some ''add'')
            = (Inr (preSave (?start\<lparr> g_currentAmount := g_currentAmount ?start + 25 \<rparr>)),
               ?st0\<lparr> goals := replaceGoal
                   (preSave (?start\<lparr> g_currentAmount := g_currentAmount ?start + 25 \<rparr>))
                   (goals ?st0) \<rparr>)"
    by (rule progress_add_succeeds [OF ex_auth f0 _ _ v0]) (simp_all add: exampleGoal_def)
  have pd: "preSave (?start\<lparr> g_currentAmount := g_currentAmount ?start + 25 \<rparr>) = ?done"
    by (simp add: preSave_def exampleGoal_def)
  have rd: "?st0\<lparr> goals := replaceGoal ?done (goals ?st0) \<rparr> = ?st1"
    by (simp add: replaceGoal_def exampleGoal_def)
  have a: "updateSavingsGoalProgress 1000 goalPaths ?st0 (plainRequest ''u1'') ''g1''
             (Some 25) (Some ''add'') = (Inr ?done, ?st1)"
    by (simp only: a0 pd rd)
  from h a have "h = ?done" by simp
  with hc hd have d: "g_isCompleted ?done \<and> g_currentAmount ?done = 105"
    by (simp add: exampleGoal_def)
  have s0: "updateSavingsGoalProgress 1000 goalPaths ?st1 (plainRequest ''u1'') ''g1''
             (Some 50) (Some ''subtract'')
            = (Inr (preSave (?done\<lparr> g_currentAmount := g_currentAmount ?done - 50 \<rparr>)),
               ?st1\<lparr> goals := replaceGoal
                   (preSave (?done\<lparr> g_currentAmount := g_currentAmount ?done - 50 \<rparr>))
                   (goals ?st1) \<rparr>)"
    by (rule progress_subtract_succeeds [OF ex_auth f1 _ _ v1]) (simp_all add: exampleGoal_def)
  have pl: "preSave (?done\<lparr> g_currentAmount := g_currentAmount ?done - 50 \<rparr>) = ?less"
    by (simp add: preSave_def exampleGoal_def)
  have rl: "?st1\<lparr> goals := replaceGoal ?less (goals ?st1) \<rparr> = exampleStore\<lparr> goals := [?less] \<rparr>"
    by (simp add: replaceGoal_def exampleGoal_def)
  have s: "updateSavingsGoalProgress 1000 goalPaths ?st1 (plainRequest ''u1'') ''g1''
             (Some 50) (Some ''subtract'')
           = (Inr ?less, exampleStore\<lparr> goals := [?less] \<rparr>)"
    by (simp only: s0 pl rl)
  have m: "markActive 1000 goalPaths ?less = Inr (?less\<lparr> g_isCompleted := False \<rparr>)"
    using inst [where g = ?less, THEN conjunct2, THEN conjunct2, THEN conjunct2, THEN conjunct2,
        THEN conjunct2, THEN conjunct2, THEN conjunct2, THEN conjunct1] v2
    by (simp add: exampleGoal_def)
  from a s m d show ?thesis by (simp add: ex_goal_start)
qed

lemma trim_Nil: "trim [] = []"
  by (simp add: trim_def)

text \<open>
  C10. A goal created with \<open>currentAmount\<close> at or above \<open>targetAmount\<close> is stored
  with \<open>isCompleted = true\<close>, although the controller builds it with
  \<open>isCompleted = false\<close>: the pre-save hook runs on the creating save. Whenever the
  creation succeeds the stored goal is completed; and it does succeed for an authenticated
  caller with a title of 2 to 100 characters after trimming, a target of at least 1, a
  deadline after the current time, and description, category and priority that the
  schema accepts.
\<close>

theorem C10_created_goal_completed:
  assumes "gb_targetAmount body = Some target"
      and "gb_currentAmount body = Some current"
      and "target \<le> current"
  shows "(\<forall>g st'. createSavingsGoal off now newId st rq body = (Inr g, st')
            \<longrightarrow> g_isCompleted g \<and> g_currentAmount g = current \<and> g_targetAmount g = target
              \<and> st' = st\<lparr> goals := goals st @ [g] \<rparr>)
       \<and> (authenticated rq = Inr userId
          \<and> gb_title body = Some title \<and> 2 \<le> length (trim title) \<and> length (trim title) \<le> 100
          \<and> 1 \<le> target
          \<and> gb_deadline body = Some deadline \<and> now < newDate off deadline
          \<and> (case gb_description body of None \<Rightarrow> True | Some d \<Rightarrow> length (trim d) \<le> 500)
          \<and> (case gb_category body of None \<Rightarrow> True | Some c \<Rightarrow> c \<in> set goalCategories)
          \<and> orElse (gb_priority body) ''medium'' \<in> set priorities
          \<longrightarrow> (\<exists>g. createSavingsGoal off now newId st rq body
                       = (Inr g, st\<lparr> goals := goals st @ [g] \<rparr>)
                   \<and> g_isCompleted g \<and> g_userId g = userId \<and> g_isActive g))"
proof -
  have A:
       "\<forall>g st'. createSavingsGoal off now newId st rq body = (Inr g, st')
            \<longrightarrow> g_isCompleted g \<and> g_currentAmount g = current \<and> g_targetAmount g = target
              \<and> st' = st\<lparr> goals := goals st @ [g] \<rparr>"
  proof (intro allI impI)
  fix g st'
  assume c: "createSavingsGoal off now newId st rq body = (Inr g, st')"
  from c assms obtain d where sv: "save now goalPaths d = Inr g"
    and d: "g_currentAmount d = current" "g_targetAmount d = target"
    and st': "st' = st\<lparr> goals := goals st @ [g] \<rparr>"
    by (auto simp: createSavingsGoal_def Let_def split: sum.splits option.splits if_splits)
  from sv have "g = preSave d" by (rule save_Inr)
  with d assms(3) st'
  show "g_isCompleted g \<and> g_currentAmount g = current \<and> g_targetAmount g = target
        \<and> st' = st\<lparr> goals := goals st @ [g] \<rparr>"
    by (simp add: preSave_fields preSave_only_sets)
  qed
  have B:
       "authenticated rq = Inr userId
          \<and> gb_title body = Some title \<and> 2 \<le> length (trim title) \<and> length (trim title) \<le> 100
          \<and> 1 \<le> target
          \<and> gb_deadline body = Some deadline \<and> now < newDate off deadline
          \<and> (case gb_description body of None \<Rightarrow> True | Some d \<Rightarrow> length (trim d) \<le> 500)
          \<and> (case gb_category body of None \<Rightarrow> True | Some c \<Rightarrow> c \<in> set goalCategories)
          \<and> orElse (gb_priority body) ''medium'' \<in> set priorities
          \<longrightarrow> (\<exists>g. createSavingsGoal off now newId st rq body
                       = (Inr g, st\<lparr> goals := goals st @ [g] \<rparr>)
                   \<and> g_isCompleted g \<and> g_userId g = userId \<and> g_isActive g)"
  proof (rule impI)
  assume v: "authenticated rq = Inr userId
          \<and> gb_title body = Some title \<and> 2 \<le> length (trim title) \<and> length (trim title) \<le> 100
          \<and> 1 \<le> target
          \<and> gb_deadline body = Some deadline \<and> now < newDate off deadline
          \<and> (case gb_description body of None \<Rightarrow> True | Some d \<Rightarrow> length (trim d) \<le> 500)
          \<and> (case gb_category body of None \<Rightarrow> True | Some c \<Rightarrow> c \<in> set goalCategories)
          \<and> orElse (gb_priority body) ''medium'' \<in> set priorities"
  define d where "d =
     \<lparr> g_id = newId, g_userId = userId, g_title = trim title, g_targetAmount = target,
       g_currentAmount = current, g_deadline = newDate off deadline,
       g_description = map_option trim (gb_description body),
       g_category = (case gb_category body of None \<Rightarrow> ''other'' | Some c \<Rightarrow> c),
       g_priority = orElse (gb_priority body) ''medium'',
       g_isActive = True, g_isCompleted = False, g_type = ''monthly'' \<rparr>"
  have t: "title \<noteq> []" using v trim_Nil by auto
  have ok: "goalInvalidPaths now goalPaths d = []"
    using v assms(3)
    by (auto simp: goalInvalidPaths_def d_def goalCategories_def goalTypes_def
        split: option.splits)
  then have sv: "save now goalPaths d = Inr (preSave d)" by (simp add: save_def)
  have "createSavingsGoal off now newId st rq body
        = (Inr (preSave d), st\<lparr> goals := goals st @ [preSave d] \<rparr>)"
    using v assms t sv by (simp add: createSavingsGoal_def d_def)
  moreover have "g_isCompleted (preSave d)" using assms(3) by (simp add: preSave_only_sets d_def)
  moreover have "g_userId (preSave d) = userId \<and> g_isActive (preSave d)"
    by (simp add: preSave_def d_def)
  ultimately show "\<exists>g. createSavingsGoal off now newId st rq body
                       = (Inr g, st\<lparr> goals := goals st @ [g] \<rparr>)
                   \<and> g_isCompleted g \<and> g_userId g = userId \<and> g_isActive g"
    by blast
  qed
  from A B show ?thesis by blast
qed

theorem C10_created_goal_completed_witness:
  "createSavingsGoal 0 1000 ''g2'' exampleStore (plainRequest ''u1'') exampleGoalBody
     = (Inr (exampleGoal\<lparr> g_id := ''g2'', g_currentAmount := 120, g_isCompleted := True \<rparr>),
        exampleStore\<lparr> goals := [exampleGoal,
           exampleGoal\<lparr> g_id := ''g2'', g_currentAmount := 120, g_isCompleted := True \<rparr>] \<rparr>)"
proof -
  let ?g = "exampleGoal\<lparr> g_id := ''g2'', g_currentAmount := 120, g_isCompleted := True \<rparr>"
  have t: "trim ''Laptop'' = ''Laptop''" by (simp add: trim_def isSpace_def)
  have b: "gb_targetAmount exampleGoalBody = Some 100" "gb_currentAmount exampleGoalBody = Some 120"
    "(100::real) \<le> 120"
    by (simp_all add: exampleGoalBody_def)
  have c: "createSavingsGoal 0 1000 ''g2'' exampleStore (plainRequest ''u1'') exampleGoalBody
           = (Inr ?g, exampleStore\<lparr> goals := goals exampleStore @ [?g] \<rparr>)"
    by (simp add: createSavingsGoal_def authenticated_def plainRequest_def exampleGoalBody_def
        t newDate.simps save_def goalInvalidPaths_def goalPaths_def goalCategories_def
        priorities_def goalTypes_def orElse_def preSave_def exampleGoal_def)
  have "g_isCompleted ?g \<and> g_currentAmount ?g = 120"
    using C10_created_goal_completed [OF b, of 0 1000 "''g2''" exampleStore "plainRequest ''u1''"] c
    by blast
  with c show ?thesis by (simp add: exampleStore_def)
qed

section \<open>Aggregation: results\<close>

lemma insort_key_map_inj:
  "insort_key f (g x) (map g ys) = map g (insort_key (\<lambda>a. f (g a)) x ys)"
  by (induction ys) auto

lemma sort_key_map_comp: "sort_key f (map g xs) = map g (sort_key (\<lambda>a. f (g a)) xs)"
  by (induction xs) (auto simp: insort_key_map_inj)







lemma ex_matchQuery: "matchQuery 0 ''u1'' (plainRequest ''u1'') = baseQuery ''u1''"
  by (simp add: matchQuery_def plainRequest_def getDateRange_def withDateRange_def)

lemma ex_matched:
  "filter (matchesEntry (baseQuery ''u1'')) (incomes exampleStore) = incomes exampleStore"
  by (simp add: exampleStore_def exampleEntry_def baseQuery_def emptyQuery_def
      matchesEntry_def opt_eq_def opt_range_def)

lemma ex_scoped: "scopedEntries Income 0 exampleStore (plainRequest ''u1'') = incomes exampleStore"
  by (simp add: scopedEntries_def ex_auth ex_matchQuery ex_matched)





lemma utcMonth_form: "\<exists>x. utcMonth t = x mod 12 + 1"
  unfolding utcMonth_def civilFromDays_def Let_def
  by (simp only: fst_conv snd_conv) blast

lemma utcMonth_range: "1 \<le> utcMonth t \<and> utcMonth t \<le> 12"
proof -
  obtain x where x: "utcMonth t = x mod 12 + 1" using utcMonth_form by blast
  have "0 \<le> x mod 12 \<and> x mod 12 < 12" by simp
  with x show ?thesis by linarith
qed

lemma toStringNat_small: "n < 10 \<Longrightarrow> toStringNat n = [digitChar n]"
  by (subst toStringNat.simps) simp

lemma toStringNat_two:
  "10 \<le> n \<Longrightarrow> n < 100 \<Longrightarrow> toStringNat n = [digitChar (n div 10), digitChar (n mod 10)]"
  by (subst toStringNat.simps) (simp add: toStringNat_small)

lemma monthLabel_two_digits:
  assumes "1 \<le> m" "m \<le> 12"
  shows "monthLabel y m
         = toString y @ ''-'' @ [digitChar (nat (m div 10)), digitChar (nat (m mod 10))]"
proof (cases "m < 10")
  case True
  then have "nat m < 10" "m div 10 = 0" "m mod 10 = m" using assms by simp_all
  then show ?thesis using assms
    by (simp add: monthLabel_def toString_def toStringNat_small padStart_def digitChar_def)
next
  case False
  then have a: "10 \<le> nat m" "nat m < 100" using assms by simp_all
  have b: "nat m div 10 = nat (m div 10)" "nat m mod 10 = nat (m mod 10)"
    using assms by (simp_all add: nat_div_distrib nat_mod_distrib)
  show ?thesis using assms False
    by (simp add: monthLabel_def toString_def toStringNat_two [OF a] padStart_def b)
qed

lemma monthly_pipeline:
  "map (\<lambda>((y, m), t, n). \<lparr> t_month = monthLabel y m, t_amount = t, t_count = n \<rparr>)
     (sort_key fst (map (\<lambda>(ym, es). (ym, sum_amount es, length es)) (group_by yearMonth xs)))
   = spec_monthlyTrend xs"
proof -
  let ?g = "\<lambda>k. (k, sum_amount (filter (\<lambda>x. yearMonth x = k) xs),
                 length (filter (\<lambda>x. yearMonth x = k) xs))"
  have g: "map (\<lambda>(ym, es). (ym, sum_amount es, length es)) (group_by yearMonth xs)
           = map ?g (remdups (map yearMonth xs))"
    by (simp add: group_by_def)
  have s: "sort_key fst (map ?g (remdups (map yearMonth xs)))
           = map ?g (sort_key (\<lambda>k. k) (remdups (map yearMonth xs)))"
    by (simp add: sort_key_map_comp)
  have l: "sort_key (\<lambda>k. k) (remdups (map yearMonth xs)) = sorted_list_of_set (yearMonth ` set xs)"
    using sorted_list_of_set_sort_remdups [of "map yearMonth xs"] by simp
  have b: "\<And>k. k \<in> yearMonth ` set xs \<Longrightarrow>
      (\<lambda>((y, m), t, n). \<lparr> t_month = monthLabel y m, t_amount = t, t_count = n \<rparr>) (?g k)
      = spec_monthBucket xs k"
  proof -
    fix k assume "k \<in> yearMonth ` set xs"
    then obtain e where "k = yearMonth e" by blast
    then have "1 \<le> snd k \<and> snd k \<le> 12" using utcMonth_range by (simp add: yearMonth_def)
    then show "(\<lambda>((y, m), t, n). \<lparr> t_month = monthLabel y m, t_amount = t, t_count = n \<rparr>) (?g k)
      = spec_monthBucket xs k"
      by (cases k) (simp add: spec_monthBucket_def monthLabel_two_digits sum_amount_def)
  qed
  show ?thesis
    unfolding g s l spec_monthlyTrend_def
    using b by simp
qed

lemma spec_trend_counts: "\<forall>b\<in>set (spec_monthlyTrend es). 0 < t_count b"
proof
  fix b assume "b \<in> set (spec_monthlyTrend es)"
  then obtain k where k: "k \<in> yearMonth ` set es" and b: "b = spec_monthBucket es k"
    by (auto simp: spec_monthlyTrend_def)
  from k obtain e where "e \<in> set es" "yearMonth e = k" by auto
  then have "filter (\<lambda>e. yearMonth e = k) es \<noteq> []" by (auto simp: filter_empty_conv)
  then show "0 < t_count b" by (simp add: b spec_monthBucket_def)
qed

text \<open>
  C6. For an authenticated caller the statistics controller (\<open>getIncomeStats\<close> for
  \<open>k = Income\<close>, \<open>getExpenseStats\<close> for \<open>k = Expense\<close>) returns a monthly
  trend that is the list \<open>spec_monthlyTrend\<close> of the scoped entries: one bucket for each
  (year, month) that occurs among their dates, in ascending order of (year, month), each
  with the sum and the number of the entries of that month and with the label made of the
  year, a dash and the month in two digits. There are as many buckets as months that
  occur, and no bucket has a zero count.
\<close>

theorem C6_monthly_trend:
  assumes "authenticated rq = Inr userId"
  shows "\<exists>r. getEntryStats k off st rq = Inr r
     \<and> s_monthlyTrend r = spec_monthlyTrend (scopedEntries k off st rq)
     \<and> length (s_monthlyTrend r) = card (yearMonth ` set (scopedEntries k off st rq))
     \<and> (\<forall>b\<in>set (s_monthlyTrend r). 0 < t_count b)"
proof -
  let ?es = "scopedEntries k off st rq"
  have es: "?es = filter (matchesEntry (matchQuery off userId rq)) (entriesOf k st)"
    by (simp add: scopedEntries_def assms)
  obtain r where r: "getEntryStats k off st rq = Inr r"
    using assms by (simp add: getEntryStats_def Let_def)
  then have t: "s_monthlyTrend r = spec_monthlyTrend ?es"
    using assms by (auto simp: getEntryStats_def Let_def es monthly_pipeline)
  have l: "length (spec_monthlyTrend ?es) = card (yearMonth ` set ?es)"
    by (simp add: spec_monthlyTrend_def)
  from r t l spec_trend_counts [of ?es] show ?thesis by auto
qed

lemma ex_dates:
  "newDate 0 (DateOnly 2024 1 15) = 1705276800000"
  "newDate 0 (DateOnly 2024 1 20) = 1705708800000"
  "newDate 0 (DateOnly 2024 2 3) = 1706918400000"
  by code_simp+

lemma ex_ym:
  "utcYear 1705276800000 = 2024" "utcMonth 1705276800000 = 1"
  "utcYear 1705708800000 = 2024" "utcMonth 1705708800000 = 1"
  "utcYear 1706918400000 = 2024" "utcMonth 1706918400000 = 2"
  by code_simp+

lemma ex_labels: "monthLabel 2024 1 = ''2024-01''" "monthLabel 2024 2 = ''2024-02''"
  by (simp_all add: monthLabel_def toString_def toStringNat.simps padStart_def digitChar_def)

lemma ex_month_groups:
  "sort_key fst (map (\<lambda>(ym, es). (ym, sum_amount es, length es))
                     (group_by yearMonth (incomes exampleStore)))
   = [((2024, 1), 150, 2), ((2024, 2), 200, 1)]"
  by (simp add: exampleStore_def exampleEntry_def group_by_def yearMonth_def ex_dates ex_ym
      sum_amount_def)

lemma ex_trend:
  "getEntryStats Income 0 exampleStore (plainRequest ''u1'') = Inr r \<Longrightarrow>
   s_monthlyTrend r = [\<lparr> t_month = ''2024-01'', t_amount = 150, t_count = 2 \<rparr>,
                       \<lparr> t_month = ''2024-02'', t_amount = 200, t_count = 1 \<rparr>]"
  by (auto simp: getEntryStats_def ex_auth ex_matchQuery ex_matched ex_month_groups ex_labels
      Let_def)

theorem C6_monthly_trend_witness:
  "map_sum id s_monthlyTrend (getIncomeStats 0 exampleStore (plainRequest ''u1''))
     = Inr [\<lparr> t_month = ''2024-01'', t_amount = 150, t_count = 2 \<rparr>,
            \<lparr> t_month = ''2024-02'', t_amount = 200, t_count = 1 \<rparr>]
   \<and> spec_monthlyTrend (incomes exampleStore)
     = [\<lparr> t_month = ''2024-01'', t_amount = 150, t_count = 2 \<rparr>,
        \<lparr> t_month = ''2024-02'', t_amount = 200, t_count = 1 \<rparr>]"
proof -
  from C6_monthly_trend [OF ex_auth, of Income 0 exampleStore]
  obtain r where r: "getEntryStats Income 0 exampleStore (plainRequest ''u1'') = Inr r"
    and t: "s_monthlyTrend r
            = spec_monthlyTrend (scopedEntries Income 0 exampleStore (plainRequest ''u1''))"
    by blast
  have e: "s_monthlyTrend r = [\<lparr> t_month = ''2024-01'', t_amount = 150, t_count = 2 \<rparr>,
                               \<lparr> t_month = ''2024-02'', t_amount = 200, t_count = 1 \<rparr>]"
    by (rule ex_trend [OF r])
  have "map_sum id s_monthlyTrend (getIncomeStats 0 exampleStore (plainRequest ''u1''))
        = Inr (s_monthlyTrend r)"
    by (simp add: getIncomeStats_def r)
  with e t show ?thesis by (simp add: ex_scoped)
qed

section \<open>Entries and their project\<close>








section \<open>Filters outside the known values\<close>

lemma recognized_None: "\<not> recognized xs None"
  by (simp add: recognized_def)

lemma income_category_ignored:
  "\<not> recognized incomeCategories c \<Longrightarrow>
     getIncomeEntriesQuery off u (rq\<lparr> rq_category := c \<rparr>)
     = getIncomeEntriesQuery off u (rq\<lparr> rq_category := None \<rparr>)"
  by (simp add: getIncomeEntriesQuery_def recognized_None)

lemma expense_category_ignored:
  "\<not> recognized expenseCategories c \<Longrightarrow>
     getExpenseEntriesQuery off u (rq\<lparr> rq_category := c \<rparr>)
     = getExpenseEntriesQuery off u (rq\<lparr> rq_category := None \<rparr>)"
  by (simp add: getExpenseEntriesQuery_def recognized_None)

lemma project_status_ignored:
  "\<not> recognized projectStatuses s \<Longrightarrow>
     getProjectsQuery u (rq\<lparr> rq_status := s \<rparr>) = getProjectsQuery u (rq\<lparr> rq_status := None \<rparr>)"
  by (simp add: getProjectsQuery_def recognized_None)

lemma goal_priority_ignored:
  "\<not> recognized priorities p \<Longrightarrow>
     getSavingsGoalsQuery u (rq\<lparr> rq_priority := p \<rparr>)
     = getSavingsGoalsQuery u (rq\<lparr> rq_priority := None \<rparr>)"
  by (simp add: getSavingsGoalsQuery_def recognized_None Let_def cong: if_cong)

lemma goal_status_ignored:
  assumes "\<not> recognized [''active'', ''completed''] s"
  shows "getSavingsGoalsQuery u (rq\<lparr> rq_status := s \<rparr>)
         = getSavingsGoalsQuery u (rq\<lparr> rq_status := None \<rparr>)"
proof (cases s)
  case None
  then show ?thesis by simp
next
  case (Some v)
  with assms have "v = [] \<or> (v \<noteq> ''active'' \<and> v \<noteq> ''completed'')"
    by (simp add: recognized_def)
  then have "(if truthy (Some v)
              then (if Some v = Some ''active'' then a
                    else if Some v = Some ''completed'' then b else c)
              else c) = c" for a b c :: query
    by (auto simp: truthy_def)
  then show ?thesis
    by (simp add: getSavingsGoalsQuery_def Some Let_def cong: if_cong)
qed


lemma authenticated_filters:
  "authenticated (rq\<lparr> rq_category := c \<rparr>) = authenticated rq"
  "authenticated (rq\<lparr> rq_status := c \<rparr>) = authenticated rq"
  "authenticated (rq\<lparr> rq_priority := c \<rparr>) = authenticated rq"
  by (simp_all add: authenticated_def)

lemma getIncomeEntries_category_ignored:
  assumes "\<not> recognized incomeCategories c"
  shows "getIncomeEntries srt off st (rq\<lparr> rq_category := c \<rparr>)
         = getIncomeEntries srt off st (rq\<lparr> rq_category := None \<rparr>)"
  unfolding getIncomeEntries_def authenticated_filters income_category_ignored [OF assms]
  by (simp cong: sum.case_cong)

lemma getExpenseEntries_category_ignored:
  assumes "\<not> recognized expenseCategories c"
  shows "getExpenseEntries srt off st (rq\<lparr> rq_category := c \<rparr>)
         = getExpenseEntries srt off st (rq\<lparr> rq_category := None \<rparr>)"
  unfolding getExpenseEntries_def authenticated_filters expense_category_ignored [OF assms]
  by (simp cong: sum.case_cong)

lemma getProjects_status_ignored:
  assumes "\<not> recognized projectStatuses s"
  shows "getProjects srt st (rq\<lparr> rq_status := s \<rparr>) = getProjects srt st (rq\<lparr> rq_status := None \<rparr>)"
  unfolding getProjects_def authenticated_filters project_status_ignored [OF assms]
  by (simp cong: sum.case_cong)

lemma getSavingsGoals_priority_ignored:
  assumes "\<not> recognized priorities p"
  shows "getSavingsGoals srt st (rq\<lparr> rq_priority := p \<rparr>)
         = getSavingsGoals srt st (rq\<lparr> rq_priority := None \<rparr>)"
  unfolding getSavingsGoals_def authenticated_filters goal_priority_ignored [OF assms]
  by (simp cong: sum.case_cong)

lemma getSavingsGoals_status_ignored:
  assumes "\<not> recognized [''active'', ''completed''] s"
  shows "getSavingsGoals srt st (rq\<lparr> rq_status := s \<rparr>)
         = getSavingsGoals srt st (rq\<lparr> rq_status := None \<rparr>)"
  unfolding getSavingsGoals_def authenticated_filters goal_status_ignored [OF assms]
  by (simp cong: sum.case_cong)

text \<open>
  The category of the savings-goal list is applied as given, with no comparison with the
  list of categories: the same store and caller, with and without the category
  \<open>bogus\<close>.
\<close>

lemma getSavingsGoals_category_applied:
  "''bogus'' \<notin> set goalCategories
   \<and> getSavingsGoals (\<lambda>sortBy sortOrder gs. gs) exampleStore
        ((plainRequest ''u1'')\<lparr> rq_category := Some ''bogus'' \<rparr>)
     = Inr ([], calculatePagination 0 1 10)
   \<and> getSavingsGoals (\<lambda>sortBy sortOrder gs. gs) exampleStore (plainRequest ''u1'')
     = Inr ([exampleGoal], calculatePagination 1 1 10)"
proof -
  have o: "getPaginationOptions None None None None
           = \<lparr> po_page = 1, po_limit = 10, po_sortBy = ''createdAt'', po_sortOrder = Desc \<rparr>"
    by (simp add: getPaginationOptions_def or_default_def)
  have q1: "getSavingsGoalsQuery ''u1'' ((plainRequest ''u1'')\<lparr> rq_category := Some ''bogus'' \<rparr>)
            = (baseQuery ''u1'')\<lparr> q_category := Some ''bogus'' \<rparr>"
    by (simp add: getSavingsGoalsQuery_def plainRequest_def truthy_def recognized_def)
  have q2: "getSavingsGoalsQuery ''u1'' (plainRequest ''u1'') = baseQuery ''u1''"
    by (simp add: getSavingsGoalsQuery_def plainRequest_def truthy_def recognized_def)
  have f1: "filter (matchesGoal ((baseQuery ''u1'')\<lparr> q_category := Some ''bogus'' \<rparr>))
              (goals exampleStore) = []"
    by (simp add: matchesGoal_def baseQuery_def emptyQuery_def opt_eq_def opt_range_def
        exampleStore_def exampleGoal_def)
  have f2: "filter (matchesGoal (baseQuery ''u1'')) (goals exampleStore) = [exampleGoal]"
    by (simp add: matchesGoal_def baseQuery_def emptyQuery_def opt_eq_def opt_range_def
        exampleStore_def exampleGoal_def)
  have a1: "authenticated ((plainRequest ''u1'')\<lparr> rq_category := Some ''bogus'' \<rparr>) = Inr ''u1''"
    by (simp add: authenticated_def plainRequest_def)
  have r: "rq_page ((plainRequest ''u1'')\<lparr> rq_category := Some ''bogus'' \<rparr>) = None"
    "rq_limit ((plainRequest ''u1'')\<lparr> rq_category := Some ''bogus'' \<rparr>) = None"
    "rq_sortBy ((plainRequest ''u1'')\<lparr> rq_category := Some ''bogus'' \<rparr>) = None"
    "rq_sortOrder ((plainRequest ''u1'')\<lparr> rq_category := Some ''bogus'' \<rparr>) = None"
    "rq_page (plainRequest ''u1'') = None" "rq_limit (plainRequest ''u1'') = None"
    "rq_sortBy (plainRequest ''u1'') = None" "rq_sortOrder (plainRequest ''u1'') = None"
    by (simp_all add: plainRequest_def)
  have s: "page_slice 1 10 ([]::savings_goal list) = []" "page_slice 1 10 [exampleGoal] = [exampleGoal]"
    by (simp_all add: page_slice_def getSkipValue_def)
  have b: "''bogus'' \<notin> set goalCategories" by (simp add: goalCategories_def)
  have g1: "getSavingsGoals (\<lambda>sortBy sortOrder gs. gs) exampleStore
        ((plainRequest ''u1'')\<lparr> rq_category := Some ''bogus'' \<rparr>)
     = Inr ([], calculatePagination 0 1 10)"
    unfolding getSavingsGoals_def a1 by (simp add: Let_def r o q1 f1 s)
  have g2: "getSavingsGoals (\<lambda>sortBy sortOrder gs. gs) exampleStore (plainRequest ''u1'')
     = Inr ([exampleGoal], calculatePagination 1 1 10)"
    unfolding getSavingsGoals_def ex_auth by (simp add: Let_def r o q2 f2 s)
  from b g1 g2 show ?thesis by simp
qed

text \<open>
  C9, as amended. In the entry lists a category outside the list of the entity, in the
  project list a status outside the project statuses, and in the savings-goal list a
  priority outside the priorities or a status other than \<open>active\<close> and
  \<open>completed\<close>, is ignored: the controller returns what it returns without that
  filter. These four controllers return a result to every authenticated caller, whatever
  the filters. The projects-by-status list, which takes the status from the path, is
  different: it rejects a status outside the project statuses as a bad request.
\<close>

theorem C9_unrecognized_filters_ignored:
  "(\<not> recognized incomeCategories c \<longrightarrow>
      getIncomeEntries srtE off st (rq\<lparr> rq_category := c \<rparr>)
      = getIncomeEntries srtE off st (rq\<lparr> rq_category := None \<rparr>))
   \<and> (\<not> recognized expenseCategories c \<longrightarrow>
      getExpenseEntries srtE off st (rq\<lparr> rq_category := c \<rparr>)
      = getExpenseEntries srtE off st (rq\<lparr> rq_category := None \<rparr>))
   \<and> (\<not> recognized projectStatuses s \<longrightarrow>
      getProjects srtP st (rq\<lparr> rq_status := s \<rparr>) = getProjects srtP st (rq\<lparr> rq_status := None \<rparr>))
   \<and> (\<not> recognized priorities p \<longrightarrow>
      getSavingsGoals srtG st (rq\<lparr> rq_priority := p \<rparr>)
      = getSavingsGoals srtG st (rq\<lparr> rq_priority := None \<rparr>))
   \<and> (\<not> recognized [''active'', ''completed''] s \<longrightarrow>
      getSavingsGoals srtG st (rq\<lparr> rq_status := s \<rparr>)
      = getSavingsGoals srtG st (rq\<lparr> rq_status := None \<rparr>))
   \<and> (authenticated rq = Inr userId \<longrightarrow>
        (\<exists>r. getIncomeEntries srtE off st rq = Inr r)
      \<and> (\<exists>r. getExpenseEntries srtE off st rq = Inr r)
      \<and> (\<exists>r. getProjects srtP st rq = Inr r)
      \<and> (\<exists>r. getSavingsGoals srtG st rq = Inr r))
   \<and> (authenticated rq = Inr userId \<and> rq_paramStatus rq \<notin> set projectStatuses \<longrightarrow>
        getProjectsByStatus srtP st rq = Inl (BadRequestError ''Invalid status value''))"
proof -
  have p1: "\<not> recognized incomeCategories c \<longrightarrow>
      getIncomeEntries srtE off st (rq\<lparr> rq_category := c \<rparr>)
      = getIncomeEntries srtE off st (rq\<lparr> rq_category := None \<rparr>)"
    using getIncomeEntries_category_ignored by blast
  have p2: "\<not> recognized expenseCategories c \<longrightarrow>
      getExpenseEntries srtE off st (rq\<lparr> rq_category := c \<rparr>)
      = getExpenseEntries srtE off st (rq\<lparr> rq_category := None \<rparr>)"
    using getExpenseEntries_category_ignored by blast
  have p3: "\<not> recognized projectStatuses s \<longrightarrow>
      getProjects srtP st (rq\<lparr> rq_status := s \<rparr>) = getProjects srtP st (rq\<lparr> rq_status := None \<rparr>)"
    using getProjects_status_ignored by blast
  have p4: "\<not> recognized priorities p \<longrightarrow>
      getSavingsGoals srtG st (rq\<lparr> rq_priority := p \<rparr>)
      = getSavingsGoals srtG st (rq\<lparr> rq_priority := None \<rparr>)"
    using getSavingsGoals_priority_ignored by blast
  have p5: "\<not> recognized [''active'', ''completed''] s \<longrightarrow>
      getSavingsGoals srtG st (rq\<lparr> rq_status := s \<rparr>)
      = getSavingsGoals srtG st (rq\<lparr> rq_status := None \<rparr>)"
    using getSavingsGoals_status_ignored by blast
  have p6: "authenticated rq = Inr userId \<longrightarrow>
        (\<exists>r. getIncomeEntries srtE off st rq = Inr r)
      \<and> (\<exists>r. getExpenseEntries srtE off st rq = Inr r)
      \<and> (\<exists>r. getProjects srtP st rq = Inr r)
      \<and> (\<exists>r. getSavingsGoals srtG st rq = Inr r)"
    by (simp add: getIncomeEntries_def getExpenseEntries_def getProjects_def
        getSavingsGoals_def Let_def)
  have p7: "authenticated rq = Inr userId \<and> rq_paramStatus rq \<notin> set projectStatuses \<longrightarrow>
        getProjectsByStatus srtP st rq = Inl (BadRequestError ''Invalid status value'')"
    by (simp add: getProjectsByStatus_def)
  show ?thesis
    apply (rule conjI, rule p1)
    apply (rule conjI, rule p2)
    apply (rule conjI, rule p3)
    apply (rule conjI, rule p4)
    apply (rule conjI, rule p5)
    apply (rule conjI, rule p6)
    apply (rule p7)
    done
qed

text \<open>
  C9 as stated fails: the projects-by-status list does not ignore the status
  \<open>bogus\<close>, it rejects the request.
\<close>

theorem C9_path_status_rejected_counterexample:
  "''bogus'' \<notin> set projectStatuses
   \<and> getProjectsByStatus (\<lambda>sortBy sortOrder ps. ps) exampleStore
        ((plainRequest ''u1'')\<lparr> rq_paramStatus := ''bogus'' \<rparr>)
     = Inl (BadRequestError ''Invalid status value'')"
  by (simp add: getProjectsByStatus_def authenticated_def plainRequest_def projectStatuses_def)

lemma ex_getProjects:
  "getProjects (\<lambda>sortBy sortOrder ps. ps) exampleStore (plainRequest ''u1'')
   = Inr ([exampleProject ''p1'' ''u1'' ''Website'' True], calculatePagination 1 1 10)"
proof -
  have o: "getPaginationOptions None None None None
           = \<lparr> po_page = 1, po_limit = 10, po_sortBy = ''createdAt'', po_sortOrder = Desc \<rparr>"
    by (simp add: getPaginationOptions_def or_default_def)
  have q: "getProjectsQuery ''u1'' (plainRequest ''u1'') = baseQuery ''u1''"
    by (simp add: getProjectsQuery_def plainRequest_def recognized_def)
  have f: "filter (matchesProject (baseQuery ''u1'')) (projects exampleStore)
           = [exampleProject ''p1'' ''u1'' ''Website'' True]"
    by (simp add: matchesProject_def baseQuery_def emptyQuery_def opt_eq_def exampleStore_def
        exampleProject_def)
  have r: "rq_page (plainRequest ''u1'') = None" "rq_limit (plainRequest ''u1'') = None"
    "rq_sortBy (plainRequest ''u1'') = None" "rq_sortOrder (plainRequest ''u1'') = None"
    by (simp_all add: plainRequest_def)
  have s: "page_slice 1 10 [exampleProject ''p1'' ''u1'' ''Website'' True]
           = [exampleProject ''p1'' ''u1'' ''Website'' True]"
    by (simp add: page_slice_def getSkipValue_def)
  show ?thesis
    unfolding getProjects_def ex_auth by (simp add: Let_def r o q f s)
qed

theorem C9_unrecognized_filters_ignored_witness:
  "\<not> recognized projectStatuses (Some ''bogus'')
   \<and> getProjects (\<lambda>sortBy sortOrder ps. ps) exampleStore
        ((plainRequest ''u1'')\<lparr> rq_status := Some ''bogus'' \<rparr>)
     = Inr ([exampleProject ''p1'' ''u1'' ''Website'' True], calculatePagination 1 1 10)
   \<and> getProjects (\<lambda>sortBy sortOrder ps. ps) exampleStore (plainRequest ''u1'')
     = Inr ([exampleProject ''p1'' ''u1'' ''Website'' True], calculatePagination 1 1 10)"
proof -
  have n: "\<not> recognized projectStatuses (Some ''bogus'')"
    by (simp add: recognized_def projectStatuses_def)
  have i: "(plainRequest ''u1'')\<lparr> rq_status := None \<rparr> = plainRequest ''u1''"
    by (simp add: plainRequest_def)
  have "getProjects (\<lambda>sortBy sortOrder ps. ps) exampleStore
          ((plainRequest ''u1'')\<lparr> rq_status := Some ''bogus'' \<rparr>)
        = getProjects (\<lambda>sortBy sortOrder ps. ps) exampleStore
          ((plainRequest ''u1'')\<lparr> rq_status := None \<rparr>)"
    by (rule C9_unrecognized_filters_ignored [THEN conjunct2, THEN conjunct2, THEN conjunct1,
          THEN mp, OF n])
  then show ?thesis using n ex_getProjects by (simp only: i simp_thms)
qed

section \<open>Date range\<close>

lemma endOfDay_east_of_utc:
  assumes "0 \<le> off" and "off < msPerDay"
  shows "setHours off (newDate off (DateOnly y m d)) 23 59 59 999
         = newDate off (DateTime y m d 23 59 59 999)"
proof -
  have "(daysFromCivil y m d * msPerDay + off) div msPerDay = daysFromCivil y m d"
    using assms by (simp add: msPerDay_def)
  then show ?thesis by (simp add: setHours_def newDate.simps)
qed

lemma endOfDay_west_of_utc:
  assumes "off < 0" and "- msPerDay \<le> off"
  shows "setHours off (newDate off (DateOnly y m d)) 23 59 59 999
         = newDate off (DateTime y m d 23 59 59 999) - msPerDay"
proof -
  have "daysFromCivil y m d * msPerDay + off
        = (daysFromCivil y m d - 1) * msPerDay + (off + msPerDay)"
    by (simp add: algebra_simps)
  moreover have "((daysFromCivil y m d - 1) * msPerDay + (off + msPerDay)) div msPerDay
        = daysFromCivil y m d - 1"
    using assms by (simp add: msPerDay_def)
  ultimately have dv:
    "(daysFromCivil y m d * msPerDay + off) div msPerDay = daysFromCivil y m d - 1"
    by (simp only:)
  have "setHours off (newDate off (DateOnly y m d)) 23 59 59 999
        = (daysFromCivil y m d - 1) * msPerDay + timeOfDay 23 59 59 999 - off"
    by (simp only: setHours_def newDate.simps dv)
  also have "\<dots> = daysFromCivil y m d * msPerDay + timeOfDay 23 59 59 999 - off - msPerDay"
    by (simp add: algebra_simps)
  finally show ?thesis by (simp only: newDate.simps)
qed

lemma date_range_applied:
  assumes "matchesEntry (withDateRange (getDateRange off s e) q) x"
  shows "(case s of None \<Rightarrow> True | Some d \<Rightarrow> newDate off d \<le> e_date x)
       \<and> (case e of None \<Rightarrow> True
          | Some d \<Rightarrow> e_date x \<le> setHours off (newDate off d) 23 59 59 999)"
  using assms
  by (auto simp: matchesEntry_def withDateRange_def getDateRange_def opt_range_def
      split: option.splits if_splits)

lemma ex_end_dates:
  "setHours (- 18000000) (newDate (- 18000000) (DateOnly 2024 1 31)) 23 59 59 999 = 1706677199999"
  "setHours 0 (newDate 0 (DateOnly 2024 1 31)) 23 59 59 999 = 1706745599999"
  "newDate (- 18000000) (DateTime 2024 1 31 23 0 0 0) = 1706760000000"
  "newDate 0 (DateTime 2024 1 31 23 0 0 0) = 1706742000000"
  "newDate 0 (DateTime 2024 2 1 0 0 1 0) = 1706745601000"
  "newDate 0 (DateTime 2024 1 31 4 59 59 999) = 1706677199999"
  by code_simp+

lemma ex_end_query:
  "getIncomeEntriesQuery off ''u1'' endRequest
   = (baseQuery ''u1'')\<lparr> q_date := Some \<lparr> dc_gte = None,
        dc_lte = Some (setHours off (newDate off (DateOnly 2024 1 31)) 23 59 59 999) \<rparr> \<rparr>"
  by (simp add: getIncomeEntriesQuery_def endRequest_def plainRequest_def withProjectId_def
      truthy_def recognized_def getDateRange_def withDateRange_def)

lemma ex_entryAt:
  "matchesEntry ((baseQuery ''u1'')\<lparr> q_date := Some \<lparr> dc_gte = None, dc_lte = Some b \<rparr> \<rparr>)
     (entryAt t) = (t \<le> b)"
  by (simp add: matchesEntry_def baseQuery_def emptyQuery_def opt_eq_def opt_range_def
      entryAt_def exampleEntry_def)

text \<open>
  C5 does not hold when the process time zone is west of UTC. The end date 2024-01-31
  is read as midnight UTC, which is still the evening of 30 January in local time, and
  \<open>setHours\<close> then moves it to the end of that local day: at UTC-5 the bound is
  2024-01-31T04:59:59.999Z. An entry dated 2024-01-31T23:00:00, read as local time or as
  UTC, lies after the bound and is left out. At UTC the bound is the end of 31 January:
  that entry is included and one dated 2024-02-01T00:00:01 is not.
\<close>

theorem C5_end_of_day_west_of_utc:
  "q_date (getIncomeEntriesQuery (- 18000000) ''u1'' endRequest)
     = Some \<lparr> dc_gte = None, dc_lte = Some (newDate 0 (DateTime 2024 1 31 4 59 59 999)) \<rparr>
   \<and> \<not> matchesEntry (getIncomeEntriesQuery (- 18000000) ''u1'' endRequest)
         (entryAt (newDate (- 18000000) (DateTime 2024 1 31 23 0 0 0)))
   \<and> \<not> matchesEntry (getIncomeEntriesQuery (- 18000000) ''u1'' endRequest)
         (entryAt (newDate 0 (DateTime 2024 1 31 23 0 0 0)))
   \<and> matchesEntry (getIncomeEntriesQuery 0 ''u1'' endRequest)
         (entryAt (newDate 0 (DateTime 2024 1 31 23 0 0 0)))
   \<and> \<not> matchesEntry (getIncomeEntriesQuery 0 ''u1'' endRequest)
         (entryAt (newDate 0 (DateTime 2024 2 1 0 0 1 0)))"
proof -
  have q: "q_date (getIncomeEntriesQuery (- 18000000) ''u1'' endRequest)
     = Some \<lparr> dc_gte = None, dc_lte = Some (newDate 0 (DateTime 2024 1 31 4 59 59 999)) \<rparr>"
    by (simp add: ex_end_query ex_end_dates)
  have m: "\<not> matchesEntry (getIncomeEntriesQuery (- 18000000) ''u1'' endRequest)
         (entryAt (newDate (- 18000000) (DateTime 2024 1 31 23 0 0 0)))
   \<and> \<not> matchesEntry (getIncomeEntriesQuery (- 18000000) ''u1'' endRequest)
         (entryAt (newDate 0 (DateTime 2024 1 31 23 0 0 0)))
   \<and> matchesEntry (getIncomeEntriesQuery 0 ''u1'' endRequest)
         (entryAt (newDate 0 (DateTime 2024 1 31 23 0 0 0)))
   \<and> \<not> matchesEntry (getIncomeEntriesQuery 0 ''u1'' endRequest)
         (entryAt (newDate 0 (DateTime 2024 2 1 0 0 1 0)))"
    by (simp add: ex_end_query ex_entryAt ex_end_dates)
  from q m show ?thesis by (simp only: simp_thms)
qed

end
